theory Spec2Isabelle
  imports Main
begin

section \<open>Strings and paths\<close>

text \<open>
  The server is \<^verbatim>\<open>src/server.js\<close>, a Node program on a POSIX host. JavaScript strings are
  modelled as \<^typ>\<open>string\<close>. An absolute, normalised path is the list of its segments from
  the root, so \<^verbatim>\<open>/srv/temp/p1\<close> is \<open>[''srv'', ''temp'', ''p1'']\<close> and the root is \<open>[]\<close>.
\<close>

type_synonym path = "string list"

text \<open>\<^verbatim>\<open>filePath.replace(/^\/+/, '')\<close>: the leading slashes are removed.\<close>

definition strip_leading_slashes :: "string \<Rightarrow> string" where
  "strip_leading_slashes filePath = dropWhile (\<lambda>c. c = CHR ''/'') filePath"

text \<open>\<^verbatim>\<open>s.split('/')\<close>: the pieces between slashes, empty pieces included.\<close>

fun split_slash :: "string \<Rightarrow> string list" where
  "split_slash [] = [[]]"
| "split_slash (c # cs) =
     (if c = CHR ''/'' then [] # split_slash cs
      else (case split_slash cs of
              [] \<Rightarrow> [[c]]
            | s # ss \<Rightarrow> (c # s) # ss))"

text \<open>
  Node's \<^verbatim>\<open>normalizeString\<close> for an absolute path: empty segments and \<^verbatim>\<open>.\<close> are
  skipped, \<^verbatim>\<open>..\<close> removes the segment before it, and at the root \<^verbatim>\<open>..\<close> is dropped.
\<close>

fun normalize_segments :: "path \<Rightarrow> string list \<Rightarrow> path" where
  "normalize_segments res [] = res"
| "normalize_segments res (s # ss) =
     (if s = [] \<or> s = ''.'' then normalize_segments res ss
      else if s = ''..'' then normalize_segments (butlast res) ss
      else normalize_segments (res @ [s]) ss)"

text \<open>
  \<^verbatim>\<open>path.join(dir, rel)\<close> for an absolute normalised \<open>dir\<close>: the segments of the result and
  whether the result keeps a trailing separator (Node keeps the one \<open>rel\<close> ends with).
\<close>

type_synonym joined = "path \<times> bool"

definition path_join :: "path \<Rightarrow> string \<Rightarrow> joined" where
  "path_join dir rel =
     (normalize_segments dir (split_slash rel), rel \<noteq> [] \<and> last rel = CHR ''/'')"

text \<open>\<^verbatim>\<open>path.dirname\<close>: the parent; a trailing separator is ignored, the root is its own parent.\<close>

definition path_dirname :: "joined \<Rightarrow> path" where
  "path_dirname fullPath = butlast (fst fullPath)"

text \<open>\<^verbatim>\<open>String.prototype.trim\<close>, on the ASCII white space.\<close>

definition js_space :: "char \<Rightarrow> bool" where
  "js_space c = (c \<in> set [CHR 0x09, CHR 0x0A, CHR 0x0B, CHR 0x0C, CHR 0x0D, CHR 0x20])"

definition js_trim :: "string \<Rightarrow> string" where
  "js_trim s = rev (dropWhile js_space (rev (dropWhile js_space s)))"

section \<open>The file system\<close>

text \<open>
  The file system is the collaborator behind \<^verbatim>\<open>fs.promises\<close>. A state lists the nodes
  (the first entry of a path is the current one) and logs every completed \<^verbatim>\<open>writeFile\<close>.
  Permission bits are not modelled: \<^verbatim>\<open>chmod\<close> only needs its target to exist. Every
  call of \<^verbatim>\<open>fs.promises\<close> refuses a path that holds a NUL character.
\<close>

datatype node = File string | Dir

record filesystem =
  nodes :: "(path \<times> node) list"
  writes :: "(path \<times> string) list"

datatype errno = ENOENT | ENOTDIR | EISDIR | EEXIST | ENOTEMPTY | EINVAL

datatype exn = FsError errno path | InvalidArg path | VerifyError path | ExecError string

type_synonym 's action = "'s \<Rightarrow> exn option \<times> 's"

type_synonym fsop = "filesystem action"

definition node_at :: "filesystem \<Rightarrow> path \<Rightarrow> node option" where
  "node_at fs p = (if p = [] then Some Dir else map_of (nodes fs) p)"

definition has_nul :: "path \<Rightarrow> bool" where
  "has_nul p = (CHR 0x00 \<in> set (concat p))"

text \<open>Sequencing of awaited calls: the first exception ends the sequence.\<close>

definition and_then :: "'s action \<Rightarrow> 's action \<Rightarrow> 's action" where
  "and_then f g s =
     (case f s of
        (Some e, s') \<Rightarrow> (Some e, s')
      | (None, s') \<Rightarrow> g s')"

text \<open>\<^verbatim>\<open>fs.mkdir(p, { recursive: true })\<close>: every missing ancestor is created.\<close>

fun mkdir_from :: "path \<Rightarrow> string list \<Rightarrow> fsop" where
  "mkdir_from pre [] fs = (None, fs)"
| "mkdir_from pre (s # ss) fs =
     (case node_at fs (pre @ [s]) of
        Some (File c) \<Rightarrow>
          (Some (FsError (if ss = [] then EEXIST else ENOTDIR) (pre @ [s])), fs)
      | Some Dir \<Rightarrow> mkdir_from (pre @ [s]) ss fs
      | None \<Rightarrow> mkdir_from (pre @ [s]) ss (fs\<lparr>nodes := (pre @ [s], Dir) # nodes fs\<rparr>))"

definition mkdir_recursive :: "path \<Rightarrow> fsop" where
  "mkdir_recursive p fs = (if has_nul p then (Some (InvalidArg p), fs) else mkdir_from [] p fs)"

text \<open>
  \<^verbatim>\<open>fs.writeFile(fullPath, content)\<close>: the target must not be a directory (nor be written
  with a trailing separator) and its parent must be a directory.
\<close>

definition writeFile :: "joined \<Rightarrow> string \<Rightarrow> fsop" where
  "writeFile fullPath content fs =
     (let p = fst fullPath in
      if has_nul p then (Some (InvalidArg p), fs)
      else if snd fullPath then
        (Some (FsError (case node_at fs p of Some (File c) \<Rightarrow> ENOTDIR | _ \<Rightarrow> EISDIR) p), fs)
      else
        (case node_at fs p of
           Some Dir \<Rightarrow> (Some (FsError EISDIR p), fs)
         | _ \<Rightarrow>
           (case node_at fs (butlast p) of
              None \<Rightarrow> (Some (FsError ENOENT p), fs)
            | Some (File c) \<Rightarrow> (Some (FsError ENOTDIR p), fs)
            | Some Dir \<Rightarrow>
                (None, fs\<lparr>nodes := (p, File content) # nodes fs,
                          writes := writes fs @ [(p, content)]\<rparr>))))"

text \<open>\<^verbatim>\<open>fs.chmod\<close> and \<^verbatim>\<open>fs.access(p, F_OK)\<close> need the path to resolve.\<close>

definition resolves :: "joined \<Rightarrow> fsop" where
  "resolves fullPath fs =
     (if has_nul (fst fullPath) then (Some (InvalidArg (fst fullPath)), fs)
      else
        (case node_at fs (fst fullPath) of
           None \<Rightarrow> (Some (FsError ENOENT (fst fullPath)), fs)
         | Some Dir \<Rightarrow> (None, fs)
         | Some (File c) \<Rightarrow>
             (if snd fullPath then (Some (FsError ENOTDIR (fst fullPath)), fs) else (None, fs))))"

definition chmod :: "joined \<Rightarrow> fsop" where
  "chmod fullPath = resolves fullPath"

definition access :: "joined \<Rightarrow> fsop" where
  "access fullPath = resolves fullPath"

text \<open>
  \<^verbatim>\<open>fs.rm(p, { recursive: true, force: true })\<close>: the subtree goes, a missing one is no
  error; the rejection for a NUL character is caught and logged by every caller.
\<close>

definition under :: "path \<Rightarrow> path \<Rightarrow> bool" where
  "under dir p = (take (length dir) p = dir)"

definition rm_recursive :: "path \<Rightarrow> filesystem \<Rightarrow> filesystem" where
  "rm_recursive p fs =
     (if has_nul p then fs else fs\<lparr>nodes := filter (\<lambda>e. \<not> under p (fst e)) (nodes fs)\<rparr>)"

text \<open>
  \<^verbatim>\<open>fs.rename(src, dst)\<close>: the subtree at \<open>src\<close> moves to \<open>dst\<close>; \<open>dst\<close> may be absent,
  a file replaced by a file, or an empty directory replaced by a directory.
\<close>

definition has_children :: "filesystem \<Rightarrow> path \<Rightarrow> bool" where
  "has_children fs p = (\<exists>e \<in> set (nodes fs). fst e \<noteq> p \<and> under p (fst e))"

definition move_subtree :: "path \<Rightarrow> path \<Rightarrow> filesystem \<Rightarrow> filesystem" where
  "move_subtree src dst fs =
     fs\<lparr>nodes :=
          map (\<lambda>e. (dst @ drop (length src) (fst e), snd e))
              (filter (\<lambda>e. under src (fst e) \<and> node_at fs (fst e) = Some (snd e)) (nodes fs))
          @ filter (\<lambda>e. \<not> under src (fst e) \<and> \<not> under dst (fst e)) (nodes fs)\<rparr>"

definition rename :: "path \<Rightarrow> path \<Rightarrow> fsop" where
  "rename src dst fs =
     (if has_nul src then (Some (InvalidArg src), fs)
      else if has_nul dst then (Some (InvalidArg dst), fs)
      else
        (case node_at fs src of
           None \<Rightarrow> (Some (FsError ENOENT src), fs)
         | Some n \<Rightarrow>
             if src = [] \<or> dst = [] \<or> under src dst then (Some (FsError EINVAL dst), fs)
             else
               (case node_at fs (butlast dst) of
                  None \<Rightarrow> (Some (FsError ENOENT dst), fs)
                | Some (File c) \<Rightarrow> (Some (FsError ENOTDIR dst), fs)
                | Some Dir \<Rightarrow>
                    (case (n, node_at fs dst) of
                       (Dir, Some (File c)) \<Rightarrow> (Some (FsError ENOTDIR dst), fs)
                     | (File c, Some Dir) \<Rightarrow> (Some (FsError EISDIR dst), fs)
                     | (Dir, Some Dir) \<Rightarrow>
                         (if has_children fs dst then (Some (FsError ENOTEMPTY dst), fs)
                          else (None, move_subtree src dst fs))
                     | _ \<Rightarrow> (None, move_subtree src dst fs)))))"

section \<open>The build endpoint: materialising a workspace\<close>

definition PUBSPEC_YAML :: string where
  \<open>PUBSPEC_YAML =
     ''\<newline>name: flutter_preview\<newline>description: A temporary Flutter project for preview.\<newline>version: 1.0.0\<newline>environment:\<newline>  sdk: '>=2.12.0 <3.0.0'\<newline>dependencies:\<newline>  flutter:\<newline>    sdk: flutter\<newline>flutter:\<newline>  uses-material-design: true\<newline>''\<close>

definition DEFAULT_INDEX_HTML :: string where
  \<open>DEFAULT_INDEX_HTML =
     ''<!DOCTYPE html>\<newline><html>\<newline><head>\<newline>  <meta charset="UTF-8">\<newline>  <title>Flutter Web</title>\<newline>  <meta name="description" content="A new Flutter project.">\<newline>  <meta name="viewport" content="width=device-width, initial-scale=1.0">\<newline>  <link rel="manifest" href="manifest.json">\<newline></head>\<newline><body>\<newline>  <script src="main.dart.js"></script>\<newline></body>\<newline></html>''\<close>

text \<open>
  The body of the loop of \<^verbatim>\<open>/compile\<close> over \<^verbatim>\<open>Object.entries(files)\<close>: one entry is a
  caller-supplied path and its content. A failing \<^verbatim>\<open>fs.access\<close> is rethrown as the
  "Failed to verify file" error.
\<close>

definition verify_file :: "joined \<Rightarrow> fsop" where
  "verify_file fullPath fs =
     (case access fullPath fs of
        (Some e, fs') \<Rightarrow> (Some (VerifyError (fst fullPath)), fs')
      | (None, fs') \<Rightarrow> (None, fs'))"

definition compile_write_file :: "path \<Rightarrow> string \<times> string \<Rightarrow> fsop" where
  "compile_write_file projectDir entry =
     (let relativePath = strip_leading_slashes (fst entry);
          fullPath = path_join projectDir relativePath
      in and_then (mkdir_recursive (path_dirname fullPath))
        (and_then (writeFile fullPath (snd entry))
        (and_then (chmod fullPath)
                  (verify_file fullPath))))"

fun compile_write_loop :: "path \<Rightarrow> (string \<times> string) list \<Rightarrow> fsop" where
  "compile_write_loop projectDir [] fs = (None, fs)"
| "compile_write_loop projectDir (entry # entries) fs =
     (case compile_write_file projectDir entry fs of
        (Some e, fs') \<Rightarrow> (Some e, fs')
      | (None, fs') \<Rightarrow> compile_write_loop projectDir entries fs')"

text \<open>
  \<^verbatim>\<open>files['/pubspec.yaml']\<close> is read for its truth value: a missing key and an empty
  string are both falsy.
\<close>

definition truthy :: "string option \<Rightarrow> bool" where
  "truthy v = (case v of None \<Rightarrow> False | Some c \<Rightarrow> c \<noteq> [])"

definition write_pubspec :: "path \<Rightarrow> (string \<times> string) list \<Rightarrow> fsop" where
  "write_pubspec projectDir files =
     (let pubspecPath = path_join projectDir ''pubspec.yaml'' in
      if \<not> truthy (map_of files ''/pubspec.yaml'') then
        and_then (writeFile pubspecPath (js_trim PUBSPEC_YAML))
       (and_then (chmod pubspecPath)
                 (access pubspecPath))
      else (\<lambda>fs. (None, fs)))"

definition write_index_html :: "path \<Rightarrow> fsop" where
  "write_index_html projectDir =
     (let webDir = path_join projectDir ''web'';
          indexHtmlPath = path_join (fst webDir) ''index.html''
      in and_then (mkdir_recursive (fst webDir))
        (and_then (chmod webDir)
          (\<lambda>fs. case access indexHtmlPath fs of
                  (None, fs') \<Rightarrow> (None, fs')
                | (Some e, fs') \<Rightarrow>
                    and_then (writeFile indexHtmlPath DEFAULT_INDEX_HTML)
                   (and_then (chmod indexHtmlPath)
                             (access indexHtmlPath)) fs')))"

text \<open>Everything \<^verbatim>\<open>/compile\<close> does to the workspace before it starts the build container.\<close>

definition compile_materialize :: "path \<Rightarrow> (string \<times> string) list \<Rightarrow> fsop" where
  "compile_materialize projectDir files =
     and_then (mkdir_recursive projectDir)
    (and_then (chmod (projectDir, False))
    (and_then (compile_write_loop projectDir files)
    (and_then (write_pubspec projectDir files)
              (write_index_html projectDir))))"

text \<open>The loop of \<^verbatim>\<open>/compile-backend\<close>: the same, without the permission and access calls.\<close>

definition backend_write_file :: "path \<Rightarrow> string \<times> string \<Rightarrow> fsop" where
  "backend_write_file projectDir entry =
     (let relativePath = strip_leading_slashes (fst entry);
          fullPath = path_join projectDir relativePath
      in and_then (mkdir_recursive (path_dirname fullPath))
                  (writeFile fullPath (snd entry)))"

fun backend_write_loop :: "path \<Rightarrow> (string \<times> string) list \<Rightarrow> fsop" where
  "backend_write_loop projectDir [] fs = (None, fs)"
| "backend_write_loop projectDir (entry # entries) fs =
     (case backend_write_file projectDir entry fs of
        (Some e, fs') \<Rightarrow> (Some e, fs')
      | (None, fs') \<Rightarrow> backend_write_loop projectDir entries fs')"

definition backend_materialize :: "path \<Rightarrow> (string \<times> string) list \<Rightarrow> fsop" where
  "backend_materialize projectDir files =
     and_then (mkdir_recursive projectDir) (backend_write_loop projectDir files)"

section \<open>The server state\<close>

text \<open>
  \<^verbatim>\<open>backendContainers\<close> is a plain JavaScript object used as a dictionary. Reading a key
  finds an own property, or else a property inherited from \<^verbatim>\<open>Object.prototype\<close>; every
  inherited one is a truthy value without a \<^verbatim>\<open>port\<close>.
\<close>

record container_info =
  port :: nat
  containerName :: string
  timer :: nat

datatype 'a property = Own 'a | Inherited | Undefined

definition object_prototype_keys :: "string list" where
  "object_prototype_keys =
     [''constructor'', ''__proto__'', ''hasOwnProperty'', ''isPrototypeOf'',
      ''propertyIsEnumerable'', ''toLocaleString'', ''toString'', ''valueOf'',
      ''__defineGetter__'', ''__defineSetter__'', ''__lookupGetter__'', ''__lookupSetter__'']"

definition get_property :: "(string \<times> 'a) list \<Rightarrow> string \<Rightarrow> 'a property" where
  "get_property obj k =
     (case map_of obj k of
        Some v \<Rightarrow> Own v
      | None \<Rightarrow> if k \<in> set object_prototype_keys then Inherited else Undefined)"

text \<open>\<^verbatim>\<open>obj[k] = v\<close>: an existing own key keeps its place, a new one goes last.\<close>

definition set_property :: "(string \<times> 'a) list \<Rightarrow> string \<Rightarrow> 'a \<Rightarrow> (string \<times> 'a) list" where
  "set_property obj k v =
     (if k \<in> set (map fst obj) then map (\<lambda>e. if fst e = k then (k, v) else e) obj
      else obj @ [(k, v)])"

text \<open>
  A timer armed by \<^verbatim>\<open>setTimeout\<close> holds what its callback does: remove a preview
  directory (set by \<^verbatim>\<open>/compile\<close>) or stop a container (set by \<^verbatim>\<open>/compile-backend\<close>).
\<close>

datatype timer_action = RemovePreview path | StopContainer string

text \<open>
  The log hub (the socket.io clients and \<^verbatim>\<open>broadcastLog\<close>) only sends messages to
  observers and keeps nothing that a handler reads; it is left out, as are the console
  output and the static file middleware.
\<close>

text \<open>A command line handed to \<^verbatim>\<open>execSync\<close>.\<close>

datatype command =
    DockerBuild string
  | DockerRun string nat
  | DockerStop string
  | PkillLogs string

text \<open>
  The state of the process and of its collaborators. \<open>running\<close> are the containers the
  Docker daemon runs and \<open>stops\<close> the containers a \<^verbatim>\<open>docker stop\<close> has stopped, in order;
  \<open>logProcesses\<close> are the live \<^verbatim>\<open>docker logs -f\<close> children; \<open>builds\<close> are the build
  containers of \<^verbatim>\<open>/compile\<close> that have not closed, each with its \<^verbatim>\<open>dockerError\<close>;
  \<open>allocated\<close> is a history of the values \<^verbatim>\<open>nextPort++\<close> has returned and \<open>execs\<close> a
  history of the commands \<^verbatim>\<open>execSync\<close> has been called with.
\<close>

record server =
  dirname :: path
  fs :: filesystem
  backendContainers :: "(string \<times> container_info) list"
  nextPort :: nat
  allocated :: "nat list"
  timers :: "(nat \<times> timer_action) list"
  nextTimer :: nat
  running :: "string list"
  stops :: "string list"
  logProcesses :: "string list"
  execs :: "command list"
  builds :: "(string \<times> string) list"
  exited :: bool

definition TEMP_DIR :: "server \<Rightarrow> path" where
  "TEMP_DIR s = fst (path_join (dirname s) ''temp'')"

definition PREVIEW_DIR :: "server \<Rightarrow> path" where
  "PREVIEW_DIR s = fst (path_join (fst (path_join (dirname s) ''public'')) ''previews'')"

definition on_fs :: "fsop \<Rightarrow> server action" where
  "on_fs f s = (case f (fs s) of (r, fs') \<Rightarrow> (r, s\<lparr>fs := fs'\<rparr>))"

text \<open>\<^verbatim>\<open>ensureDirs()\<close> and the initial values of the module's variables.\<close>

definition ensureDirs :: "server action" where
  "ensureDirs s =
     and_then (on_fs (mkdir_recursive (TEMP_DIR s))) (on_fs (mkdir_recursive (PREVIEW_DIR s))) s"

definition initial :: "path \<Rightarrow> filesystem \<Rightarrow> server" where
  "initial d fs0 =
     snd (ensureDirs
       \<lparr>dirname = d, fs = fs0, backendContainers = [], nextPort = 35001, allocated = [],
        timers = [], nextTimer = 0, running = [], stops = [], logProcesses = [],
        execs = [], builds = [], exited = False\<rparr>)"

subsection \<open>Timers, Docker and child processes\<close>

definition setTimeout :: "timer_action \<Rightarrow> server \<Rightarrow> nat \<times> server" where
  "setTimeout a s =
     (nextTimer s, s\<lparr>timers := timers s @ [(nextTimer s, a)], nextTimer := nextTimer s + 1\<rparr>)"

definition clearTimeout :: "nat \<Rightarrow> server \<Rightarrow> server" where
  "clearTimeout t s = s\<lparr>timers := filter (\<lambda>e. fst e \<noteq> t) (timers s)\<rparr>"

definition exec_sync :: "command \<Rightarrow> server \<Rightarrow> server" where
  "exec_sync c s = s\<lparr>execs := execs s @ [c]\<rparr>"

text \<open>
  Whether the Docker daemon carries out a command is an input of the model, \<open>ok\<close>: a
  command can fail for reasons outside the server (the daemon is down or does not answer),
  and then \<^verbatim>\<open>execSync\<close> throws.

  \<^verbatim>\<open>execSync('docker stop NAME')\<close> stops a running container when the daemon carries
  it out, and throws otherwise, also for a container that is not running (with \<^verbatim>\<open>--rm\<close>
  a stopped container is gone).
\<close>

definition docker_stop :: "bool \<Rightarrow> string \<Rightarrow> server action" where
  "docker_stop ok name s =
     (let s1 = exec_sync (DockerStop name) s in
      if ok \<and> name \<in> set (running s1)
      then (None, s1\<lparr>running := removeAll name (running s1), stops := stops s1 @ [name]\<rparr>)
      else (Some (ExecError (''docker stop '' @ name)), s1))"

text \<open>\<^verbatim>\<open>execSync('pkill -f "docker logs -f NAME"')\<close> throws when it finds no process.\<close>

definition pkill_logs :: "string \<Rightarrow> server action" where
  "pkill_logs name s =
     (let s1 = exec_sync (PkillLogs name) s in
      if name \<in> set (logProcesses s1)
      then (None, s1\<lparr>logProcesses := removeAll name (logProcesses s1)\<rparr>)
      else (Some (ExecError (''pkill -f docker logs -f '' @ name)), s1))"

text \<open>
  \<^verbatim>\<open>docker build\<close> and \<^verbatim>\<open>docker run -d --rm --name NAME -p PORT:3000\<close>; a name already
  running is refused.
\<close>

definition docker_build :: "bool \<Rightarrow> string \<Rightarrow> server action" where
  "docker_build ok name s =
     (let s1 = exec_sync (DockerBuild name) s in
      if ok then (None, s1) else (Some (ExecError (''docker build '' @ name)), s1))"

definition docker_run :: "bool \<Rightarrow> string \<Rightarrow> nat \<Rightarrow> server action" where
  "docker_run ok name portToUse s =
     (let s1 = exec_sync (DockerRun name portToUse) s in
      if ok \<and> name \<notin> set (running s1) then (None, s1\<lparr>running := running s1 @ [name]\<rparr>)
      else (Some (ExecError (''docker run '' @ name)), s1))"

definition spawn_logs :: "string \<Rightarrow> server action" where
  "spawn_logs name s = (None, s\<lparr>logProcesses := logProcesses s @ [name]\<rparr>)"

text \<open>A \<^verbatim>\<open>try { ... } catch (e) { console.error(...) }\<close> block: the exception is dropped.\<close>

definition try_catch_log :: "server action \<Rightarrow> server \<Rightarrow> server" where
  "try_catch_log f s = snd (f s)"

subsection \<open>Requests and responses\<close>

datatype details = Message string | ErrorMessage exn

datatype body =
    ErrorBody string
  | ErrorDetails string details
  | PreviewUrl string
  | ApiUrl string
  | Text string

datatype response = Response nat body

text \<open>
  The two fields of \<^verbatim>\<open>req.body\<close>. \<open>projectName\<close> is absent or a string; \<open>files\<close> is
  falsy, a truthy value that is no object, or an object, given by \<^verbatim>\<open>Object.entries\<close>
  (own keys, each once, with string contents).
\<close>

datatype files_field = NoFiles | NotObject | Files "(string \<times> string) list"

definition invalid_project :: "string option \<Rightarrow> files_field \<Rightarrow> bool" where
  "invalid_project projectName files =
     (\<not> truthy projectName \<or> files = NoFiles \<or> files = NotObject)"

definition entries :: "files_field \<Rightarrow> (string \<times> string) list" where
  "entries files = (case files of Files es \<Rightarrow> es | _ \<Rightarrow> [])"

text \<open>Decimal rendering, for the template literals.\<close>

fun string_of_nat :: "nat \<Rightarrow> string" where
  "string_of_nat n =
     (if n < 10 then [char_of (48 + n)]
      else string_of_nat (n div 10) @ [char_of (48 + n mod 10)])"

declare string_of_nat.simps [simp del]

section \<open>The build endpoint\<close>

type_synonym handler = "server \<Rightarrow> response option \<times> server"

definition listen_port :: nat where
  "listen_port = 3000"

definition project_dir :: "server \<Rightarrow> string \<Rightarrow> path" where
  "project_dir s projectId = fst (path_join (TEMP_DIR s) projectId)"

definition preview_dir :: "server \<Rightarrow> string \<Rightarrow> path" where
  "preview_dir s projectId = fst (path_join (PREVIEW_DIR s) projectId)"

text \<open>The two \<^verbatim>\<open>fs.rm(...).catch(...)\<close> calls every \<^verbatim>\<open>catch\<close> block of \<^verbatim>\<open>/compile\<close> makes.\<close>

definition cleanup :: "string \<Rightarrow> server \<Rightarrow> server" where
  "cleanup projectId s =
     s\<lparr>fs := rm_recursive (preview_dir s projectId) (rm_recursive (project_dir s projectId) (fs s))\<rparr>"

text \<open>
  \<^verbatim>\<open>app.post('/compile')\<close> up to \<^verbatim>\<open>spawn('docker', ...)\<close>: the request is answered at
  once when it is invalid or the workspace cannot be written; otherwise the build
  container runs and the answer waits for its \<^verbatim>\<open>close\<close> event.
\<close>

definition compile_post :: "string option \<Rightarrow> files_field \<Rightarrow> string \<Rightarrow> handler" where
  "compile_post projectName files projectId s =
     (if invalid_project projectName files
      then (Some (Response 400 (ErrorBody ''Invalid or missing project data'')), s)
      else
        (case on_fs (compile_materialize (project_dir s projectId) (entries files)) s of
           (None, s') \<Rightarrow> (None, s'\<lparr>builds := builds s' @ [(projectId, [])]\<rparr>)
         | (Some err, s') \<Rightarrow>
             (Some (Response 500 (ErrorDetails ''Failed to compile Flutter code'' (ErrorMessage err))),
              cleanup projectId s')))"

text \<open>\<^verbatim>\<open>dockerProcess.stderr.on('data')\<close>: a chunk that is not blank is added to \<^verbatim>\<open>dockerError\<close>.\<close>

definition build_stderr :: "string \<Rightarrow> string \<Rightarrow> server \<Rightarrow> server" where
  "build_stderr projectId data s =
     (let message = js_trim data in
      if message \<noteq> [] then
        s\<lparr>builds :=
            map (\<lambda>b. if fst b = projectId then (fst b, snd b @ message @ ''\<newline>'') else b)
                (builds s)\<rparr>
      else s)"

text \<open>
  \<^verbatim>\<open>dockerProcess.on('close')\<close> with the exit code (\<open>None\<close> is \<^verbatim>\<open>null\<close>, a container
  ended by a signal).
\<close>

definition on_close :: "string \<Rightarrow> string \<Rightarrow> nat option \<Rightarrow> handler" where
  "on_close projectId dockerError code s =
     (if code \<noteq> Some 0 then
        (let errorMessage =
               ''Docker process exited with code '' @
               (case code of None \<Rightarrow> ''null'' | Some n \<Rightarrow> string_of_nat n)
         in (Some (Response 500 (ErrorDetails ''Failed to compile Flutter code''
                      (Message (if dockerError \<noteq> [] then dockerError else errorMessage)))), s))
      else
        (case on_fs (and_then
                 (rename (fst (path_join (fst (path_join (project_dir s projectId) ''build'')) ''web''))
                         (preview_dir s projectId))
                 (\<lambda>f. (None, rm_recursive (project_dir s projectId) f))) s of
           (None, s') \<Rightarrow>
             (Some (Response 200 (PreviewUrl
                (''http://localhost:'' @ string_of_nat listen_port @ ''/previews/'' @ projectId
                   @ ''/index.html''))),
              snd (setTimeout (RemovePreview (preview_dir s projectId)) s'))
         | (Some err, s') \<Rightarrow>
             (Some (Response 500 (ErrorDetails ''Failed to process compiled output'' (ErrorMessage err))),
              cleanup projectId s')))"

definition build_close :: "string \<Rightarrow> nat option \<Rightarrow> handler" where
  "build_close projectId code s =
     (case map_of (builds s) projectId of
        None \<Rightarrow> (None, s)
      | Some dockerError \<Rightarrow>
          on_close projectId dockerError code
            (s\<lparr>builds := filter (\<lambda>b. fst b \<noteq> projectId) (builds s)\<rparr>))"

section \<open>The backend endpoint\<close>

text \<open>
  \<^verbatim>\<open>nextPort++\<close>. A JavaScript number is a double: adding one is exact below \<open>2^53\<close>, and
  at \<open>2^53\<close>, the largest value the counter can reach from 35001, the sum rounds back to
  \<open>2^53\<close>.
\<close>

definition js_increment :: "nat \<Rightarrow> nat" where
  "js_increment n = (if n < 2 ^ 53 then n + 1 else n)"

definition allocate_port :: "server \<Rightarrow> nat \<times> server" where
  "allocate_port s =
     (nextPort s,
      s\<lparr>nextPort := js_increment (nextPort s), allocated := allocated s @ [nextPort s]\<rparr>)"

text \<open>The \<^verbatim>\<open>try\<close> block of \<^verbatim>\<open>/compile-backend\<close> up to the spawn of the log follower.\<close>

definition backend_start ::
  "path \<Rightarrow> (string \<times> string) list \<Rightarrow> string \<Rightarrow> nat \<Rightarrow> bool \<Rightarrow> bool \<Rightarrow> server action"
  where
  "backend_start projectDir files name portToUse buildOk runOk =
     and_then (on_fs (backend_materialize projectDir files))
    (and_then (docker_build buildOk name)
    (and_then (docker_run runOk name portToUse)
              (spawn_logs name)))"

definition api_url :: "string \<Rightarrow> string" where
  "api_url projectId = ''/previews/backend/'' @ projectId @ ''/api''"

text \<open>
  \<^verbatim>\<open>app.post('/compile-backend')\<close>. \<open>projectId\<close> is the value of \<^verbatim>\<open>uuidv4()\<close>; \<open>buildOk\<close>,
  \<open>runOk\<close> and \<open>stopOk\<close> say whether the daemon carries out the build, the run and the
  stop of the \<^verbatim>\<open>catch\<close> block.
\<close>

definition compile_backend_post ::
  "string option \<Rightarrow> files_field \<Rightarrow> string \<Rightarrow> bool \<Rightarrow> bool \<Rightarrow> bool \<Rightarrow> handler" where
  "compile_backend_post projectName files projectId buildOk runOk stopOk s =
     (if invalid_project projectName files
      then (Some (Response 400 (ErrorBody ''Invalid or missing project data'')), s)
      else
        (let projectDir = project_dir s projectId;
             portToUse = fst (allocate_port s);
             name = ''backend-'' @ projectId
         in case backend_start projectDir (entries files) name portToUse buildOk runOk
                   (snd (allocate_port s)) of
              (None, s1) \<Rightarrow>
                (let t = fst (setTimeout (StopContainer name) s1);
                     s2 = snd (setTimeout (StopContainer name) s1);
                     s3 = s2\<lparr>backendContainers :=
                              set_property (backendContainers s2) projectId
                                \<lparr>port = portToUse, containerName = name, timer = t\<rparr>\<rparr>
                 in (Some (Response 200 (ApiUrl (api_url projectId))), s3))
            | (Some err, s1) \<Rightarrow>
                (Some (Response 500
                   (ErrorDetails ''Failed to build or run backend code'' (ErrorMessage err))),
                 try_catch_log (and_then (docker_stop stopOk name) (pkill_logs name))
                   (s1\<lparr>fs := rm_recursive projectDir (fs s1)\<rparr>))))"

section \<open>The router\<close>

text \<open>
  The middleware mounted at \<^verbatim>\<open>/previews/backend/:projectId/api\<close>, called by Express with
  the \<^verbatim>\<open>:projectId\<close> segment and the request's \<^verbatim>\<open>originalUrl\<close>. It answers 404 itself or
  hands the request to the proxy, with the target port (\<open>None\<close> when \<^verbatim>\<open>info.port\<close> is
  undefined) and the rewritten path.
\<close>

datatype routed = Replied response | Proxied "nat option" string

definition startsWith :: "string \<Rightarrow> string \<Rightarrow> bool" where
  "startsWith s prefix = (take (length prefix) s = prefix)"

definition backend_api :: "string \<Rightarrow> string \<Rightarrow> server \<Rightarrow> routed" where
  "backend_api projectId originalUrl s =
     (case get_property (backendContainers s) projectId of
        Undefined \<Rightarrow> Replied (Response 404 (Text ''Backend not running for this project''))
      | info \<Rightarrow>
          (let prefix = ''/previews/backend/'' @ projectId @ ''/api'';
               restOfPath = (if startsWith originalUrl prefix
                             then drop (length prefix) originalUrl else []);
               targetPath = ''/api'' @ restOfPath
           in Proxied (case info of Own i \<Rightarrow> Some (port i) | _ \<Rightarrow> None) targetPath))"

section \<open>Eviction and shutdown\<close>

text \<open>
  A timer that fires is spent, and then its callback runs: the preview directory is
  removed, or \<^verbatim>\<open>docker stop\<close> is run inside a \<^verbatim>\<open>try\<close> block that logs a failure.
  \<open>stopOk\<close> says whether the daemon carries out the stop.
\<close>

definition timer_fires :: "bool \<Rightarrow> nat \<Rightarrow> server \<Rightarrow> server" where
  "timer_fires stopOk t s =
     (case map_of (timers s) t of
        None \<Rightarrow> s
      | Some (RemovePreview previewDir) \<Rightarrow>
          (clearTimeout t s)\<lparr>fs := rm_recursive previewDir (fs s)\<rparr>
      | Some (StopContainer name) \<Rightarrow>
          try_catch_log (docker_stop stopOk name) (clearTimeout t s))"

text \<open>
  The \<^verbatim>\<open>SIGINT\<close> handler: the \<^verbatim>\<open>for ... in\<close> loop over the registry, then
  \<^verbatim>\<open>process.exit()\<close>. Each pass clears the timer and runs \<^verbatim>\<open>docker stop\<close> and \<^verbatim>\<open>pkill\<close>
  inside one \<^verbatim>\<open>try\<close> block that logs a failure. \<open>stopOk\<close> says, for each container
  name, whether the daemon carries out its stop.
\<close>

fun sigint_loop ::
  "(string \<Rightarrow> bool) \<Rightarrow> (string \<times> container_info) list \<Rightarrow> server \<Rightarrow> server" where
  "sigint_loop stopOk [] s = s"
| "sigint_loop stopOk (e # es) s =
     sigint_loop stopOk es
       (try_catch_log
          (and_then (docker_stop (stopOk (containerName (snd e))) (containerName (snd e)))
                    (pkill_logs (containerName (snd e))))
          (clearTimeout (timer (snd e)) s))"

definition sigint :: "(string \<Rightarrow> bool) \<Rightarrow> server \<Rightarrow> server" where
  "sigint stopOk s = (sigint_loop stopOk (backendContainers s) s)\<lparr>exited := True\<rparr>"

section \<open>Runs of the server\<close>

text \<open>
  What can happen to the process and change its state, each with what the daemon does
  then; after \<^verbatim>\<open>process.exit()\<close> nothing does. A request to the router reads the
  registry and changes nothing.
\<close>

datatype event =
    PostCompile "string option" files_field string
  | BuildStderr string string
  | BuildClose string "nat option"
  | PostCompileBackend "string option" files_field string bool bool bool
  | TimerFires bool nat
  | Sigint "string \<Rightarrow> bool"

fun step :: "event \<Rightarrow> server \<Rightarrow> server" where
  "step (PostCompile projectName files projectId) s = snd (compile_post projectName files projectId s)"
| "step (BuildStderr projectId data) s = build_stderr projectId data s"
| "step (BuildClose projectId code) s = snd (build_close projectId code s)"
| "step (PostCompileBackend projectName files projectId buildOk runOk stopOk) s =
     snd (compile_backend_post projectName files projectId buildOk runOk stopOk s)"
| "step (TimerFires stopOk t) s = timer_fires stopOk t s"
| "step (Sigint stopOk) s = sigint stopOk s"

fun run :: "event list \<Rightarrow> server \<Rightarrow> server" where
  "run [] s = s"
| "run (e # es) s = (if exited s then s else run es (step e s))"

section \<open>Example states\<close>

text \<open>
  A server installed in \<^verbatim>\<open>/srv\<close>, and the same server after one accepted
  \<^verbatim>\<open>/compile-backend\<close> request whose session id is \<open>p1\<close>.
\<close>

definition example_fs :: filesystem where
  "example_fs = \<lparr>nodes = [([''srv''], Dir)], writes = []\<rparr>"

definition example_server :: server where
  "example_server = initial [''srv''] example_fs"

definition example_backend :: server where
  "example_backend =
     snd (compile_backend_post (Some ''demo'') (Files [(''/server.js'', ''listen'')]) ''p1''
            True True True example_server)"

text \<open>
  The server after an accepted \<^verbatim>\<open>/compile\<close> request with session id \<open>b1\<close> whose build
  container has printed one chunk on its standard error.
\<close>

definition example_build :: server where
  "example_build =
     build_stderr ''b1'' ''  oops  ''
       (snd (compile_post (Some ''demo'') (Files [(''/lib/main.dart'', ''void main'')]) ''b1''
               example_server))"

text \<open>The server with two registered sessions, \<open>p1\<close> and \<open>p2\<close>.\<close>

definition example_two_backends :: server where
  "example_two_backends =
     snd (compile_backend_post (Some ''demo'') (Files [(''/index.js'', ''listen'')]) ''p2''
            True True True example_backend)"

section \<open>An invariant of the port counter\<close>

text \<open>
  The counter has not gone below its first value, the ports handed out so far are the
  numbers from 35001 up to the counter, and every registered port is below the counter.
\<close>

definition ports_consistent :: "server \<Rightarrow> bool" where
  "ports_consistent s =
     (35001 \<le> nextPort s \<and> allocated s = [35001..<nextPort s]
      \<and> (\<forall>e \<in> set (backendContainers s). port (snd e) < nextPort s))"

section \<open>The manifest of a workspace\<close>

text \<open>
  The path an entry of the file map is written at, the path of the manifest
  \<^verbatim>\<open>pubspec.yaml\<close> of a workspace, the entries whose path is the manifest's, and the
  writes to the manifest between two states of the file system.
\<close>

definition entry_target :: "path \<Rightarrow> string \<times> string \<Rightarrow> path" where
  "entry_target projectDir entry =
     fst (path_join projectDir (strip_leading_slashes (fst entry)))"

definition manifest_path :: "path \<Rightarrow> path" where
  "manifest_path projectDir = fst (path_join projectDir ''pubspec.yaml'')"

definition manifest_entries :: "path \<Rightarrow> (string \<times> string) list \<Rightarrow> (string \<times> string) list" where
  "manifest_entries projectDir files =
     filter (\<lambda>e. entry_target projectDir e = manifest_path projectDir) files"

definition writes_since :: "filesystem \<Rightarrow> filesystem \<Rightarrow> (path \<times> string) list" where
  "writes_since fs0 fs' = drop (length (writes fs0)) (writes fs')"

definition manifest_writes :: "path \<Rightarrow> filesystem \<Rightarrow> filesystem \<Rightarrow> (path \<times> string) list" where
  "manifest_writes projectDir fs0 fs' =
     filter (\<lambda>w. fst w = manifest_path projectDir) (writes_since fs0 fs')"

section \<open>What the file system takes\<close>




section \<open>The commands of a handler\<close>

text \<open>The commands run between two states, and the \<^verbatim>\<open>docker stop\<close> commands among them.\<close>

definition execs_since :: "server \<Rightarrow> server \<Rightarrow> command list" where
  "execs_since s s' = drop (length (execs s)) (execs s')"

definition stop_commands :: "command list \<Rightarrow> command list" where
  "stop_commands cs = filter (\<lambda>c. case c of DockerStop name \<Rightarrow> True | _ \<Rightarrow> False) cs"

section \<open>Properties\<close>

subsection \<open>Evaluating the example states\<close>

lemmas path_defs = path_join_def strip_leading_slashes_def path_dirname_def

lemmas fs_defs = node_at_def and_then_def has_nul_def mkdir_recursive_def writeFile_def
  resolves_def chmod_def access_def under_def rm_recursive_def

lemmas server_defs = TEMP_DIR_def PREVIEW_DIR_def on_fs_def ensureDirs_def initial_def
  project_dir_def preview_dir_def invalid_project_def truthy_def entries_def exec_sync_def

lemma example_server_eq:
  "example_server =
     \<lparr>dirname = [''srv''],
      fs = \<lparr>nodes = [([''srv'', ''public'', ''previews''], Dir), ([''srv'', ''public''], Dir),
                     ([''srv'', ''temp''], Dir), ([''srv''], Dir)], writes = []\<rparr>,
      backendContainers = [], nextPort = 35001, allocated = [],
      timers = [], nextTimer = 0, running = [], stops = [], logProcesses = [],
      execs = [],
      builds = [], exited = False\<rparr>"
  by (simp add: example_server_def example_fs_def path_defs fs_defs server_defs)

lemma example_backend_eq:
  "example_backend =
     \<lparr>dirname = [''srv''],
      fs = \<lparr>nodes = [([''srv'', ''temp'', ''p1'', ''server.js''], File ''listen''),
                     ([''srv'', ''temp'', ''p1''], Dir),
                     ([''srv'', ''public'', ''previews''], Dir), ([''srv'', ''public''], Dir),
                     ([''srv'', ''temp''], Dir), ([''srv''], Dir)],
            writes = [([''srv'', ''temp'', ''p1'', ''server.js''], ''listen'')]\<rparr>,
      backendContainers =
        [(''p1'', \<lparr>port = 35001, containerName = ''backend-p1'', timer = 0\<rparr>)],
      nextPort = 35002, allocated = [35001],
      timers = [(0, StopContainer ''backend-p1'')], nextTimer = 1,
      running = [''backend-p1''], stops = [], logProcesses = [''backend-p1''],
      execs = [DockerBuild ''backend-p1'', DockerRun ''backend-p1'' 35001],
      builds = [], exited = False\<rparr>"
  by (simp add: example_backend_def example_server_eq compile_backend_post_def path_defs fs_defs
      server_defs allocate_port_def js_increment_def backend_start_def backend_materialize_def
      backend_write_file_def docker_build_def docker_run_def spawn_logs_def setTimeout_def
      set_property_def Let_def)

subsection \<open>The router rewrites the path\<close>

text \<open>
  Claim C6. For a session that is registered, a request whose URL is the session's
  \<^verbatim>\<open>apiUrl\<close> followed by a sub-path is handed to the proxy with the session's registered
  port as the target and with the path \<^verbatim>\<open>/api\<close> followed by the same sub-path.
\<close>

theorem router_rewrites_to_api:
  assumes "get_property (backendContainers s) projectId = Own info"
  shows "backend_api projectId (api_url projectId @ subPath) s
           = Proxied (Some (port info)) (''/api'' @ subPath)"
  using assms by (simp add: backend_api_def api_url_def startsWith_def)

theorem router_rewrites_to_api_witness:
  "get_property (backendContainers example_backend) ''p1''
      = Own \<lparr>port = 35001, containerName = ''backend-p1'', timer = 0\<rparr>
   \<and> backend_api ''p1'' (api_url ''p1'' @ ''/widgets'') example_backend
      = Proxied (Some 35001) ''/api/widgets''"
proof -
  have h: "get_property (backendContainers example_backend) ''p1''
      = Own \<lparr>port = 35001, containerName = ''backend-p1'', timer = 0\<rparr>"
    by (simp add: example_backend_eq get_property_def)
  show ?thesis using h router_rewrites_to_api [OF h, of "''/widgets''"] by simp
qed

lemma example_backend_response:
  "compile_backend_post (Some ''demo'') (Files [(''/server.js'', ''listen'')]) ''p1'' True True True
     example_server = (Some (Response 200 (ApiUrl ''/previews/backend/p1/api'')), example_backend)"
  by (simp add: example_backend_def compile_backend_post_def example_server_eq path_defs fs_defs
      server_defs allocate_port_def js_increment_def backend_start_def backend_materialize_def
      backend_write_file_def docker_build_def docker_run_def spawn_logs_def setTimeout_def
      set_property_def api_url_def Let_def)

lemma example_build_eq:
  "example_build =
     \<lparr>dirname = [''srv''],
      fs = \<lparr>nodes = [([''srv'', ''temp'', ''b1'', ''web'', ''index.html''], File DEFAULT_INDEX_HTML),
                     ([''srv'', ''temp'', ''b1'', ''web''], Dir),
                     ([''srv'', ''temp'', ''b1'', ''pubspec.yaml''], File (js_trim PUBSPEC_YAML)),
                     ([''srv'', ''temp'', ''b1'', ''lib'', ''main.dart''], File ''void main''),
                     ([''srv'', ''temp'', ''b1'', ''lib''], Dir),
                     ([''srv'', ''temp'', ''b1''], Dir),
                     ([''srv'', ''public'', ''previews''], Dir), ([''srv'', ''public''], Dir),
                     ([''srv'', ''temp''], Dir), ([''srv''], Dir)],
            writes = [([''srv'', ''temp'', ''b1'', ''lib'', ''main.dart''], ''void main''),
                      ([''srv'', ''temp'', ''b1'', ''pubspec.yaml''], js_trim PUBSPEC_YAML),
                      ([''srv'', ''temp'', ''b1'', ''web'', ''index.html''], DEFAULT_INDEX_HTML)]\<rparr>,
      backendContainers = [], nextPort = 35001, allocated = [],
      timers = [], nextTimer = 0, running = [], stops = [], logProcesses = [],
      execs = [],
      builds = [(''b1'', ''oops\<newline>'')], exited = False\<rparr>"
  by (simp add: example_build_def build_stderr_def js_trim_def js_space_def compile_post_def
      example_server_eq path_defs fs_defs server_defs compile_materialize_def
      compile_write_file_def verify_file_def write_pubspec_def write_index_html_def Let_def)

subsection \<open>The registry as a dictionary\<close>

lemma map_of_replace_other:
  "k' \<noteq> k \<Longrightarrow> map_of (map (\<lambda>e. if fst e = k then (k, v) else e) obj) k' = map_of obj k'"
  by (induction obj) auto

lemma map_of_replace_same:
  "k \<in> fst ` set obj \<Longrightarrow> map_of (map (\<lambda>e. if fst e = k then (k, v) else e) obj) k = Some v"
  by (induction obj) auto

lemma map_of_set_property:
  "map_of (set_property obj k v) k' = (if k' = k then Some v else map_of obj k')"
proof (cases "k \<in> fst ` set obj")
  case True
  then show ?thesis by (simp add: set_property_def map_of_replace_other map_of_replace_same)
next
  case False
  then have "map_of obj k = None" by (simp add: map_of_eq_None_iff)
  with False show ?thesis
    by (auto simp: set_property_def map_add_def split: option.splits)
qed

lemma get_property_Own: "get_property obj k = Own v \<longleftrightarrow> map_of obj k = Some v"
  by (auto simp: get_property_def split: option.splits)

subsection \<open>Registration comes before the endpoint is advertised\<close>

lemma backend_response_registered:
  assumes "compile_backend_post projectName files projectId buildOk runOk stopOk s
             = (Some (Response 200 b), s')"
  shows "b = ApiUrl (api_url projectId) \<and>
         (\<exists>t. map_of (backendContainers s') projectId
                = Some \<lparr>port = nextPort s, containerName = ''backend-'' @ projectId, timer = t\<rparr>)"
  using assms
  by (auto simp: compile_backend_post_def Let_def allocate_port_def map_of_set_property
      split: if_splits prod.splits option.splits)

lemma backend_api_port:
  assumes "backend_api projectId url s = Proxied (Some p) targetPath"
  shows "\<exists>info. map_of (backendContainers s) projectId = Some info \<and> port info = p"
  using assms
  by (auto simp: backend_api_def get_property_def Let_def
      split: option.splits if_splits property.splits)

text \<open>
  Claim C9. The router hands a request to a port only when the registry holds an entry
  for the session id with that port, so no lookup returns a port before the entry is
  stored; and when \<^verbatim>\<open>/compile-backend\<close> answers 200, its body is the session's \<^verbatim>\<open>apiUrl\<close>
  and the state in which the answer is sent already holds the entry for the session,
  with the port allocated for this request.
\<close>

theorem endpoint_advertised_after_registration:
  "(backend_api sessionId url s0 = Proxied (Some p) targetPath \<longrightarrow>
      (\<exists>info. map_of (backendContainers s0) sessionId = Some info \<and> port info = p))
   \<and> (compile_backend_post projectName files projectId buildOk runOk stopOk s
         = (Some (Response 200 b), s') \<longrightarrow>
       b = ApiUrl (api_url projectId) \<and>
       (\<exists>t. get_property (backendContainers s') projectId
              = Own \<lparr>port = nextPort s, containerName = ''backend-'' @ projectId, timer = t\<rparr>))"
  using backend_response_registered [of projectName files projectId buildOk runOk stopOk s b s']
    backend_api_port [of sessionId url s0 p targetPath]
  by (simp add: get_property_Own)

theorem endpoint_advertised_after_registration_witness:
  "backend_api ''p1'' ''/previews/backend/p1/api/widgets'' example_server
     = Replied (Response 404 (Text ''Backend not running for this project''))
   \<and> compile_backend_post (Some ''demo'') (Files [(''/server.js'', ''listen'')]) ''p1'' True True True
       example_server = (Some (Response 200 (ApiUrl ''/previews/backend/p1/api'')), example_backend)
   \<and> get_property (backendContainers example_backend) ''p1''
       = Own \<lparr>port = 35001, containerName = ''backend-p1'', timer = 0\<rparr>
   \<and> backend_api ''p1'' ''/previews/backend/p1/api/widgets'' example_backend
       = Proxied (Some 35001) ''/api/widgets''
   \<and> (\<exists>info. map_of (backendContainers example_backend) ''p1'' = Some info \<and> port info = 35001)"
proof -
  have before: "backend_api ''p1'' ''/previews/backend/p1/api/widgets'' example_server
     = Replied (Response 404 (Text ''Backend not running for this project''))"
    by (simp add: example_server_eq backend_api_def get_property_def object_prototype_keys_def)
  have after: "backend_api ''p1'' ''/previews/backend/p1/api/widgets'' example_backend
       = Proxied (Some 35001) ''/api/widgets''"
    by (simp add: example_backend_eq backend_api_def get_property_def startsWith_def)
  have np: "nextPort example_server = 35001" by (simp add: example_server_eq)
  from endpoint_advertised_after_registration
      [of "''p1''" "''/previews/backend/p1/api/widgets''" example_backend 35001 "''/api/widgets''"
      "Some ''demo''" "Files [(''/server.js'', ''listen'')]" "''p1''" True True True example_server
      "ApiUrl ''/previews/backend/p1/api''" example_backend]
    example_backend_response after
  have "(\<exists>info. map_of (backendContainers example_backend) ''p1'' = Some info \<and> port info = 35001)
      \<and> (\<exists>t. get_property (backendContainers example_backend) ''p1''
              = Own \<lparr>port = 35001, containerName = ''backend-p1'', timer = t\<rparr>)"
    by (simp add: np)
  moreover have "timer (snd (hd (backendContainers example_backend))) = 0"
    by (simp add: example_backend_eq)
  ultimately show ?thesis
    using before after example_backend_response
    by (auto simp: example_backend_eq get_property_def)
qed

subsection \<open>Requests for a session that is not registered\<close>

lemma unknown_session_404:
  assumes "map_of (backendContainers s) projectId = None"
      and "projectId \<notin> set object_prototype_keys"
  shows "backend_api projectId url s
           = Replied (Response 404 (Text ''Backend not running for this project''))"
  using assms by (simp add: backend_api_def get_property_def)

text \<open>
  Claim C7. A session id that is not registered is answered 404 by the router unless it
  names a property of \<^verbatim>\<open>Object.prototype\<close>: with no session registered at all, the
  request \<^verbatim>\<open>/previews/backend/constructor/api/widgets\<close> is not answered 404 but handed to
  the proxy, with an undefined target port.
\<close>

theorem unregistered_constructor_is_proxied:
  "backend_api ''constructor'' ''/previews/backend/constructor/api/widgets'' example_server
     = Proxied None ''/api/widgets''"
  by (simp add: backend_api_def get_property_def object_prototype_keys_def example_server_eq
      startsWith_def)

theorem unregistered_constructor_is_proxied_witness:
  "map_of (backendContainers example_server) ''constructor'' = None
   \<and> backend_api ''constructor'' ''/previews/backend/constructor/api/widgets'' example_server
       \<noteq> Replied (Response 404 (Text ''Backend not running for this project''))"
  using unregistered_constructor_is_proxied by (simp add: example_server_eq)

subsection \<open>A failed build\<close>

text \<open>
  Claim C2. When the build container closes with a code other than 0, the request is
  answered 500 with the accumulated standard error as its details (the exit message when
  nothing was accumulated), and the state is left as it was: the workspace directory is
  not removed.
\<close>

theorem failed_build_keeps_workspace:
  assumes "code \<noteq> Some 0"
  shows "on_close projectId dockerError code s =
           (Some (Response 500 (ErrorDetails ''Failed to compile Flutter code''
              (Message (if dockerError \<noteq> [] then dockerError
                        else ''Docker process exited with code '' @
                             (case code of None \<Rightarrow> ''null'' | Some n \<Rightarrow> string_of_nat n))))),
            s)"
  using assms by (simp add: on_close_def Let_def)

theorem failed_build_keeps_workspace_witness:
  "Some (1::nat) \<noteq> Some 0
   \<and> build_close ''b1'' (Some 1) example_build =
       (Some (Response 500 (ErrorDetails ''Failed to compile Flutter code'' (Message ''oops\<newline>''))),
        example_build\<lparr>builds := []\<rparr>)
   \<and> node_at (fs (snd (build_close ''b1'' (Some 1) example_build))) [''srv'', ''temp'', ''b1'']
       = Some Dir
   \<and> node_at (fs (snd (build_close ''b1'' (Some 1) example_build)))
         [''srv'', ''temp'', ''b1'', ''lib'', ''main.dart''] = Some (File ''void main'')"
proof -
  have b: "map_of (builds example_build) ''b1'' = Some ''oops\<newline>''"
    by (simp add: example_build_eq)
  have c: "build_close ''b1'' (Some 1) example_build =
       (Some (Response 500 (ErrorDetails ''Failed to compile Flutter code'' (Message ''oops\<newline>''))),
        example_build\<lparr>builds := filter (\<lambda>b. fst b \<noteq> ''b1'') (builds example_build)\<rparr>)"
    using failed_build_keeps_workspace [of "Some 1" "''b1''" "''oops\<newline>''"
        "example_build\<lparr>builds := filter (\<lambda>b. fst b \<noteq> ''b1'') (builds example_build)\<rparr>"] b
    by (simp add: build_close_def)
  show ?thesis
    unfolding c by (simp add: example_build_eq node_at_def)
qed

lemma example_two_backends_eq:
  "example_two_backends =
     \<lparr>dirname = [''srv''],
      fs = \<lparr>nodes = [([''srv'', ''temp'', ''p2'', ''index.js''], File ''listen''),
                     ([''srv'', ''temp'', ''p2''], Dir),
                     ([''srv'', ''temp'', ''p1'', ''server.js''], File ''listen''),
                     ([''srv'', ''temp'', ''p1''], Dir),
                     ([''srv'', ''public'', ''previews''], Dir), ([''srv'', ''public''], Dir),
                     ([''srv'', ''temp''], Dir), ([''srv''], Dir)],
            writes = [([''srv'', ''temp'', ''p1'', ''server.js''], ''listen''),
                      ([''srv'', ''temp'', ''p2'', ''index.js''], ''listen'')]\<rparr>,
      backendContainers =
        [(''p1'', \<lparr>port = 35001, containerName = ''backend-p1'', timer = 0\<rparr>),
         (''p2'', \<lparr>port = 35002, containerName = ''backend-p2'', timer = 1\<rparr>)],
      nextPort = 35003, allocated = [35001, 35002],
      timers = [(0, StopContainer ''backend-p1''), (1, StopContainer ''backend-p2'')],
      nextTimer = 2,
      running = [''backend-p1'', ''backend-p2''], stops = [],
      logProcesses = [''backend-p1'', ''backend-p2''],
      execs = [DockerBuild ''backend-p1'', DockerRun ''backend-p1'' 35001,
               DockerBuild ''backend-p2'', DockerRun ''backend-p2'' 35002],
      builds = [], exited = False\<rparr>"
  by (simp add: example_two_backends_def example_backend_eq compile_backend_post_def path_defs
      fs_defs server_defs allocate_port_def js_increment_def backend_start_def
      backend_materialize_def backend_write_file_def docker_build_def docker_run_def
      spawn_logs_def setTimeout_def set_property_def Let_def)

subsection \<open>Shutdown\<close>

text \<open>One pass of the shutdown loop.\<close>

lemma sweep_one:
  "running (try_catch_log (and_then (docker_stop ok name) (pkill_logs name)) (clearTimeout t s))
     = (if ok then removeAll name (running s) else running s)"
  "timers (try_catch_log (and_then (docker_stop ok name) (pkill_logs name)) (clearTimeout t s))
     = filter (\<lambda>e. fst e \<noteq> t) (timers s)"
  "stops (try_catch_log (and_then (docker_stop ok name) (pkill_logs name)) (clearTimeout t s))
     = stops s @ (if ok \<and> name \<in> set (running s) then [name] else [])"
  "execs (try_catch_log (and_then (docker_stop ok name) (pkill_logs name)) (clearTimeout t s))
     = execs s @ DockerStop name # (if ok \<and> name \<in> set (running s) then [PkillLogs name] else [])"
  "backendContainers
     (try_catch_log (and_then (docker_stop ok name) (pkill_logs name)) (clearTimeout t s))
     = backendContainers s"
  "nextPort (try_catch_log (and_then (docker_stop ok name) (pkill_logs name)) (clearTimeout t s))
     = nextPort s"
  "allocated (try_catch_log (and_then (docker_stop ok name) (pkill_logs name)) (clearTimeout t s))
     = allocated s"
  by (auto simp: try_catch_log_def and_then_def docker_stop_def pkill_logs_def clearTimeout_def
      exec_sync_def Let_def)

lemma sigint_loop_registry:
  "backendContainers (sigint_loop stopOk es s) = backendContainers s
   \<and> nextPort (sigint_loop stopOk es s) = nextPort s
   \<and> allocated (sigint_loop stopOk es s) = allocated s"
  by (induction es arbitrary: s) (simp_all add: sweep_one)

lemma sigint_loop_running:
  "set (running (sigint_loop stopOk es s))
     = set (running s) - {n. stopOk n \<and> n \<in> (\<lambda>e. containerName (snd e)) ` set es}"
  by (induction es arbitrary: s) (auto simp: sweep_one)

lemma sigint_loop_timers:
  "fst ` set (timers (sigint_loop stopOk es s))
     = fst ` set (timers s) - (\<lambda>e. timer (snd e)) ` set es"
  by (induction es arbitrary: s) (auto simp: sweep_one)

lemma sigint_loop_execs:
  "\<exists>cs. execs (sigint_loop stopOk es s) = execs s @ cs
        \<and> stop_commands cs = map (\<lambda>e. DockerStop (containerName (snd e))) es"
proof (induction es arbitrary: s)
  case Nil
  then show ?case by (simp add: stop_commands_def)
next
  case (Cons e es)
  let ?s1 = "try_catch_log
          (and_then (docker_stop (stopOk (containerName (snd e))) (containerName (snd e)))
                    (pkill_logs (containerName (snd e))))
          (clearTimeout (timer (snd e)) s)"
  from Cons.IH [of ?s1] obtain cs where
    cs: "execs (sigint_loop stopOk es ?s1) = execs ?s1 @ cs"
      "stop_commands cs = map (\<lambda>e. DockerStop (containerName (snd e))) es"
    by blast
  then show ?case
    by (auto simp: sweep_one stop_commands_def)
qed

lemma sigint_stop_commands:
  "stop_commands (execs_since s (sigint stopOk s))
     = map (\<lambda>e. DockerStop (containerName (snd e))) (backendContainers s)"
  using sigint_loop_execs [of stopOk "backendContainers s" s]
  by (auto simp: sigint_def execs_since_def)

text \<open>
  Claim C8, as the code has it. The shutdown handler visits every session of the registry
  and then exits: it has run one \<^verbatim>\<open>docker stop\<close> for each session, in the order of the
  registry, and no timer of a session is armed any more. A container whose stop the
  daemon carries out is no longer running; a stop that fails is caught and logged, the
  sweep goes on, and that container is running at the exit exactly if it was before.
\<close>

theorem shutdown_sweeps_registry:
  "exited (sigint stopOk s)
   \<and> stop_commands (execs_since s (sigint stopOk s))
       = map (\<lambda>e. DockerStop (containerName (snd e))) (backendContainers s)
   \<and> (\<forall>e \<in> set (backendContainers s).
         timer (snd e) \<notin> fst ` set (timers (sigint stopOk s))
       \<and> (stopOk (containerName (snd e))
            \<longrightarrow> containerName (snd e) \<notin> set (running (sigint stopOk s)))
       \<and> (\<not> stopOk (containerName (snd e))
            \<longrightarrow> (containerName (snd e) \<in> set (running (sigint stopOk s)))
                 = (containerName (snd e) \<in> set (running s))))"
  using sigint_stop_commands [of s stopOk]
  by (auto simp: sigint_def sigint_loop_running sigint_loop_timers)

theorem shutdown_sweeps_registry_witness:
  "backendContainers example_two_backends =
     [(''p1'', \<lparr>port = 35001, containerName = ''backend-p1'', timer = 0\<rparr>),
      (''p2'', \<lparr>port = 35002, containerName = ''backend-p2'', timer = 1\<rparr>)]
   \<and> running example_two_backends = [''backend-p1'', ''backend-p2'']
   \<and> exited (sigint (\<lambda>n. n = ''backend-p1'') example_two_backends)
   \<and> stop_commands (execs_since example_two_backends
         (sigint (\<lambda>n. n = ''backend-p1'') example_two_backends))
       = [DockerStop ''backend-p1'', DockerStop ''backend-p2'']
   \<and> 0 \<notin> fst ` set (timers (sigint (\<lambda>n. n = ''backend-p1'') example_two_backends))
   \<and> 1 \<notin> fst ` set (timers (sigint (\<lambda>n. n = ''backend-p1'') example_two_backends))
   \<and> ''backend-p1'' \<notin> set (running (sigint (\<lambda>n. n = ''backend-p1'') example_two_backends))
   \<and> ''backend-p2'' \<in> set (running (sigint (\<lambda>n. n = ''backend-p1'') example_two_backends))"
  using shutdown_sweeps_registry [of "\<lambda>n. n = ''backend-p1''" example_two_backends]
  by (simp add: example_two_backends_eq)

text \<open>
  A shutdown with two registered sessions during which the daemon carries out no stop:
  the handler exits with both containers running.
\<close>

theorem failed_stops_leave_containers_running:
  "map fst (backendContainers example_two_backends) = [''p1'', ''p2'']
   \<and> exited (sigint (\<lambda>n. False) example_two_backends)
   \<and> running (sigint (\<lambda>n. False) example_two_backends) = [''backend-p1'', ''backend-p2'']
   \<and> stops (sigint (\<lambda>n. False) example_two_backends) = []"
  by (simp add: example_two_backends_eq sigint_def sweep_one)

subsection \<open>Eviction by the timer\<close>





subsection \<open>Port allocation\<close>

lemma on_fs_frame:
  "on_fs f s = (r, s') \<Longrightarrow>
     nextPort s' = nextPort s \<and> allocated s' = allocated s
     \<and> backendContainers s' = backendContainers s"
  by (auto simp: on_fs_def split: prod.splits)

lemma compile_post_frame:
  "nextPort (snd (compile_post projectName files projectId s)) = nextPort s
   \<and> allocated (snd (compile_post projectName files projectId s)) = allocated s
   \<and> backendContainers (snd (compile_post projectName files projectId s)) = backendContainers s"
  by (auto simp: compile_post_def cleanup_def split: prod.splits option.splits dest: on_fs_frame)

lemma build_stderr_frame:
  "nextPort (build_stderr projectId data s) = nextPort s
   \<and> allocated (build_stderr projectId data s) = allocated s
   \<and> backendContainers (build_stderr projectId data s) = backendContainers s"
  by (simp add: build_stderr_def Let_def)

lemma on_close_frame:
  "nextPort (snd (on_close projectId dockerError code s)) = nextPort s
   \<and> allocated (snd (on_close projectId dockerError code s)) = allocated s
   \<and> backendContainers (snd (on_close projectId dockerError code s)) = backendContainers s"
  by (auto simp: on_close_def cleanup_def setTimeout_def Let_def
      split: prod.splits option.splits dest: on_fs_frame)

lemma build_close_frame:
  "nextPort (snd (build_close projectId code s)) = nextPort s
   \<and> allocated (snd (build_close projectId code s)) = allocated s
   \<and> backendContainers (snd (build_close projectId code s)) = backendContainers s"
  using on_close_frame
  by (simp add: build_close_def split: option.splits)

lemma timer_fires_frame:
  "nextPort (timer_fires stopOk t s) = nextPort s
   \<and> allocated (timer_fires stopOk t s) = allocated s
   \<and> backendContainers (timer_fires stopOk t s) = backendContainers s"
  by (auto simp: timer_fires_def clearTimeout_def try_catch_log_def docker_stop_def
      exec_sync_def Let_def split: option.splits timer_action.splits)

lemma sigint_frame:
  "nextPort (sigint stopOk s) = nextPort s \<and> allocated (sigint stopOk s) = allocated s
   \<and> backendContainers (sigint stopOk s) = backendContainers s"
  by (simp add: sigint_def sigint_loop_registry)

lemma backend_start_frame:
  "backend_start projectDir files name portToUse buildOk runOk s = (r, s') \<Longrightarrow>
     nextPort s' = nextPort s \<and> allocated s' = allocated s
     \<and> backendContainers s' = backendContainers s"
  by (auto simp: backend_start_def and_then_def docker_build_def docker_run_def spawn_logs_def
      exec_sync_def Let_def split: prod.splits option.splits if_splits dest: on_fs_frame)

lemma set_set_property: "set (set_property obj k v) \<subseteq> insert (k, v) (set obj)"
  by (auto simp: set_property_def split: if_splits)

lemma compile_backend_post_ports:
  assumes "ports_consistent s" and "nextPort s < 2 ^ 53"
  shows "ports_consistent (snd (compile_backend_post projectName files projectId buildOk runOk stopOk s))
     \<and> nextPort s \<le> nextPort (snd (compile_backend_post projectName files projectId buildOk runOk stopOk s))
     \<and> nextPort (snd (compile_backend_post projectName files projectId buildOk runOk stopOk s))
          \<le> nextPort s + 1"
proof (cases "invalid_project projectName files")
  case True
  with assms show ?thesis by (simp add: compile_backend_post_def)
next
  case False
  let ?s0 = "snd (allocate_port s)"
  have s0: "nextPort ?s0 = nextPort s + 1" "allocated ?s0 = [35001..<nextPort s + 1]"
    "backendContainers ?s0 = backendContainers s"
    using assms by (simp_all add: allocate_port_def js_increment_def ports_consistent_def)
  obtain r s1 where st: "backend_start (project_dir s projectId) (entries files)
      (''backend-'' @ projectId) (nextPort s) buildOk runOk ?s0 = (r, s1)"
    by (cases "backend_start (project_dir s projectId) (entries files)
      (''backend-'' @ projectId) (nextPort s) buildOk runOk ?s0") auto
  from backend_start_frame [OF st] s0
  have s1: "nextPort s1 = nextPort s + 1" "allocated s1 = [35001..<nextPort s + 1]"
    "backendContainers s1 = backendContainers s"
    by simp_all
  show ?thesis
  proof (cases r)
    case None
    with False st s1 assms set_set_property show ?thesis
      by (fastforce simp: compile_backend_post_def Let_def setTimeout_def ports_consistent_def
          allocate_port_def)
  next
    case (Some err)
    with False st s1 assms show ?thesis
      by (auto simp: compile_backend_post_def Let_def try_catch_log_def and_then_def
          docker_stop_def pkill_logs_def exec_sync_def ports_consistent_def allocate_port_def)
  qed
qed

lemma step_ports:
  assumes "ports_consistent s" and "nextPort s < 2 ^ 53"
  shows "ports_consistent (step e s) \<and> nextPort s \<le> nextPort (step e s)
     \<and> nextPort (step e s) \<le> nextPort s + 1"
proof (cases e)
  case (PostCompileBackend projectName files projectId buildOk runOk stopOk)
  with compile_backend_post_ports [OF assms] show ?thesis by simp
qed (use assms in \<open>simp_all add: ports_consistent_def compile_post_frame build_stderr_frame
      build_close_frame timer_fires_frame sigint_frame\<close>)

lemma run_ports:
  "ports_consistent s \<Longrightarrow> nextPort s + length evs \<le> 2 ^ 53 \<Longrightarrow>
     ports_consistent (run evs s) \<and> nextPort (run evs s) \<le> nextPort s + length evs"
proof (induction evs arbitrary: s)
  case Nil
  then show ?case by simp
next
  case (Cons e evs)
  show ?case
  proof (cases "exited s")
    case True
    with Cons.prems show ?thesis by simp
  next
    case False
    from Cons.prems have lt: "nextPort s < 2 ^ 53" by simp
    from step_ports [OF Cons.prems(1) lt, of e]
    have p: "ports_consistent (step e s)" and le: "nextPort (step e s) \<le> nextPort s + 1"
      by simp_all
    from le Cons.prems(2) have "nextPort (step e s) + length evs \<le> 2 ^ 53" by simp
    from Cons.IH [OF p this] le False show ?thesis by simp
  qed
qed

lemma initial_ports: "ports_consistent (initial d fs0) \<and> nextPort (initial d fs0) = 35001"
  by (auto simp: initial_def ensureDirs_def and_then_def on_fs_def ports_consistent_def
      split: prod.splits option.splits)

text \<open>
  Claim C5. After any run of the server from its start, of fewer events than the counter
  has exact values left (\<open>2^53 - 35001\<close>), the ports allocated so far followed by the port
  the next allocation returns are strictly increasing, hence pairwise distinct, and that
  next port is not the port of any registered session.
\<close>

theorem ports_strictly_increasing:
  assumes "length evs < 2 ^ 53 - 35001"
  shows "sorted_wrt (<) (allocated (run evs (initial d fs0))
                          @ [fst (allocate_port (run evs (initial d fs0)))])
     \<and> distinct (allocated (run evs (initial d fs0))
                   @ [fst (allocate_port (run evs (initial d fs0)))])
     \<and> fst (allocate_port (run evs (initial d fs0)))
          \<notin> (\<lambda>e. port (snd e)) ` set (backendContainers (run evs (initial d fs0)))"
proof -
  let ?s = "run evs (initial d fs0)"
  from assms have "nextPort (initial d fs0) + length evs \<le> 2 ^ 53"
    by (simp add: initial_ports)
  from run_ports [OF _ this] initial_ports have p: "ports_consistent ?s" by simp
  then have "allocated ?s @ [fst (allocate_port ?s)] = [35001..<nextPort ?s + 1]"
    by (simp add: ports_consistent_def allocate_port_def)
  moreover from p have "fst (allocate_port ?s)
          \<notin> (\<lambda>e. port (snd e)) ` set (backendContainers ?s)"
    by (auto simp: ports_consistent_def allocate_port_def)
  ultimately show ?thesis by (simp del: upt_Suc)
qed

theorem ports_strictly_increasing_witness:
  "length [PostCompileBackend (Some ''demo'') (Files [(''/server.js'', ''listen'')]) ''p1'' True True True,
           PostCompileBackend (Some ''demo'') (Files [(''/index.js'', ''listen'')]) ''p2'' True True True]
     < (2::nat) ^ 53 - 35001
   \<and> run [PostCompileBackend (Some ''demo'') (Files [(''/server.js'', ''listen'')]) ''p1'' True True True,
           PostCompileBackend (Some ''demo'') (Files [(''/index.js'', ''listen'')]) ''p2'' True True True]
        (initial [''srv''] example_fs) = example_two_backends
   \<and> allocated example_two_backends = [35001, 35002]
   \<and> fst (allocate_port example_two_backends) = 35003
   \<and> map (\<lambda>e. port (snd e)) (backendContainers example_two_backends) = [35001, 35002]
   \<and> sorted_wrt (<) [35001, 35002, 35003 :: nat]"
proof -
  let ?evs = "[PostCompileBackend (Some ''demo'') (Files [(''/server.js'', ''listen'')]) ''p1'' True True True,
           PostCompileBackend (Some ''demo'') (Files [(''/index.js'', ''listen'')]) ''p2'' True True True]"
  have len: "length ?evs < (2::nat) ^ 53 - 35001" by simp
  have e0: "\<not> exited example_server" by (simp add: example_server_eq)
  have e1: "\<not> exited example_backend" by (simp add: example_backend_eq)
  have s1: "step (PostCompileBackend (Some ''demo'') (Files [(''/server.js'', ''listen'')]) ''p1''
              True True True) example_server = example_backend"
    by (simp add: example_backend_def)
  have s2: "step (PostCompileBackend (Some ''demo'') (Files [(''/index.js'', ''listen'')]) ''p2''
              True True True) example_backend = example_two_backends"
    by (simp add: example_two_backends_def)
  have r: "run ?evs (initial [''srv''] example_fs) = example_two_backends"
    unfolding example_server_def [symmetric]
    by (simp only: run.simps e0 e1 s1 s2 if_False)
  show ?thesis
    using len ports_strictly_increasing [OF len, of "[''srv'']" example_fs]
    unfolding r
    by (simp add: example_two_backends_eq allocate_port_def)
qed

subsection \<open>The file system calls\<close>

lemma and_then_cases:
  assumes "and_then f g s = (r, s')"
  obtains (stop) e where "f s = (Some e, s')" "r = Some e"
        | (go) s1 where "f s = (None, s1)" "g s1 = (r, s')"
  using assms by (auto simp: and_then_def split: prod.splits option.splits)

lemma mkdir_from_writes: "mkdir_from pre ss fs0 = (r, fs') \<Longrightarrow> writes fs' = writes fs0"
proof (induction ss arbitrary: pre fs0)
  case Nil
  then show ?case by simp
next
  case (Cons s ss)
  then show ?case
    by (cases "node_at fs0 (pre @ [s])") (auto split: node.splits)
qed

lemma node_at_cons:
  "node_at (fs0\<lparr>nodes := (q, n) # nodes fs0\<rparr>) p
     = (if p = [] then Some Dir else if p = q then Some n else node_at fs0 p)"
  by (simp add: node_at_def)

lemma mkdir_from_keeps:
  "mkdir_from pre ss fs0 = (r, fs') \<Longrightarrow> node_at fs0 p = Some n \<Longrightarrow> node_at fs' p = Some n"
proof (induction ss arbitrary: pre fs0)
  case Nil
  then show ?case by simp
next
  case (Cons s ss)
  show ?case
  proof (cases "node_at fs0 (pre @ [s])")
    case None
    with Cons.prems have "mkdir_from (pre @ [s]) ss (fs0\<lparr>nodes := (pre @ [s], Dir) # nodes fs0\<rparr>) = (r, fs')"
      by simp
    moreover from None Cons.prems(2)
    have "node_at (fs0\<lparr>nodes := (pre @ [s], Dir) # nodes fs0\<rparr>) p = Some n"
      by (auto simp: node_at_def)
    ultimately show ?thesis by (rule Cons.IH)
  next
    case (Some m)
    with Cons show ?thesis by (cases m) auto
  qed
qed

lemma mkdir_recursive_writes: "mkdir_recursive p fs0 = (r, fs') \<Longrightarrow> writes fs' = writes fs0"
  by (auto simp: mkdir_recursive_def split: if_splits dest: mkdir_from_writes)

lemma mkdir_recursive_keeps:
  "mkdir_recursive p fs0 = (r, fs') \<Longrightarrow> node_at fs0 q = Some n \<Longrightarrow> node_at fs' q = Some n"
  by (auto simp: mkdir_recursive_def split: if_splits dest: mkdir_from_keeps)

lemma writeFile_ok:
  assumes "writeFile fp c fs0 = (None, fs')"
  shows "\<not> snd fp" and "writes fs' = writes fs0 @ [(fst fp, c)]"
    and "node_at fs' p = (if p = fst fp then Some (File c) else node_at fs0 p)"
    and "\<not> has_nul (fst fp)"
  using assms
  by (auto simp: writeFile_def Let_def node_at_def split: if_splits option.splits node.splits)

lemma writeFile_fail: "writeFile fp c fs0 = (Some e, fs') \<Longrightarrow> fs' = fs0"
  by (auto simp: writeFile_def Let_def split: if_splits option.splits node.splits)

lemma resolves_same: "resolves fp fs0 = (r, fs') \<Longrightarrow> fs' = fs0"
  by (auto simp: resolves_def split: option.splits node.splits if_splits)

lemma resolves_file:
  "node_at fs0 (fst fp) = Some (File c) \<Longrightarrow> \<not> snd fp \<Longrightarrow> \<not> has_nul (fst fp) \<Longrightarrow>
     resolves fp fs0 = (None, fs0)"
  by (simp add: resolves_def)

lemma writeFile_then_resolves:
  "writeFile fp c fs1 = (None, fs2) \<Longrightarrow> resolves fp fs2 = (None, fs2)"
  using writeFile_ok(1) [of fp c fs1 fs2] writeFile_ok(3) [of fp c fs1 fs2 "fst fp"]
    writeFile_ok(4) [of fp c fs1 fs2]
  by (simp add: resolves_file)

text \<open>One entry of the build loop: written at its target, or nothing written.\<close>

lemma compile_write_file_None:
  assumes "compile_write_file proj e fs0 = (None, fs')"
  shows "\<exists>fs1. mkdir_recursive (path_dirname (path_join proj (strip_leading_slashes (fst e)))) fs0
                 = (None, fs1)
             \<and> writeFile (path_join proj (strip_leading_slashes (fst e))) (snd e) fs1 = (None, fs')"
  using assms
  by (auto simp: compile_write_file_def Let_def and_then_def chmod_def verify_file_def access_def
      split: prod.splits option.splits dest: resolves_same)

lemma compile_write_file_ok:
  assumes "compile_write_file proj e fs0 = (None, fs')"
  shows "writes fs' = writes fs0 @ [(entry_target proj e, snd e)]"
    and "node_at fs' (entry_target proj e) = Some (File (snd e))"
    and "node_at fs0 p = Some n \<Longrightarrow> p \<noteq> entry_target proj e \<Longrightarrow> node_at fs' p = Some n"
proof -
  let ?fp = "path_join proj (strip_leading_slashes (fst e))"
  from compile_write_file_None [OF assms] obtain fs1 where
    m: "mkdir_recursive (path_dirname ?fp) fs0 = (None, fs1)" and
    w: "writeFile ?fp (snd e) fs1 = (None, fs')"
    by blast
  have fp: "fst ?fp = entry_target proj e" by (simp add: entry_target_def)
  from m have w1: "writes fs1 = writes fs0" by (rule mkdir_recursive_writes)
  from writeFile_ok(2) [OF w] w1 fp show "writes fs' = writes fs0 @ [(entry_target proj e, snd e)]"
    by simp
  from writeFile_ok(3) [OF w] fp show "node_at fs' (entry_target proj e) = Some (File (snd e))"
    by simp
  assume "node_at fs0 p = Some n" "p \<noteq> entry_target proj e"
  with m have "node_at fs1 p = Some n"
    by (auto dest: mkdir_recursive_keeps)
  with writeFile_ok(3) [OF w] fp \<open>p \<noteq> entry_target proj e\<close>
  show "node_at fs' p = Some n" by simp
qed

lemma compile_write_file_fail:
  assumes "compile_write_file proj e fs0 = (Some x, fs')"
  shows "writes fs' = writes fs0"
  using assms
  by (auto simp: compile_write_file_def Let_def and_then_def chmod_def verify_file_def access_def
      writeFile_then_resolves
      split: prod.splits option.splits dest!: mkdir_recursive_writes writeFile_fail)

lemma compile_write_loop_writes:
  assumes "compile_write_loop proj es fs0 = (r, fs')"
  shows "\<exists>n \<le> length es. (r = None \<longrightarrow> n = length es)
           \<and> writes fs' = writes fs0 @ map (\<lambda>e. (entry_target proj e, snd e)) (take n es)"
  using assms
proof (induction es arbitrary: fs0)
  case Nil
  then show ?case by simp
next
  case (Cons e es)
  obtain r1 fs1 where st: "compile_write_file proj e fs0 = (r1, fs1)"
    by (cases "compile_write_file proj e fs0") auto
  show ?case
  proof (cases r1)
    case None
    with st Cons.prems have "compile_write_loop proj es fs1 = (r, fs')" by simp
    from Cons.IH [OF this] obtain n where n: "n \<le> length es" "r = None \<longrightarrow> n = length es"
      "writes fs' = writes fs1 @ map (\<lambda>e. (entry_target proj e, snd e)) (take n es)"
      by blast
    with compile_write_file_ok(1) [of proj e fs0 fs1] st None
    have "Suc n \<le> length (e # es) \<and> (r = None \<longrightarrow> Suc n = length (e # es))
        \<and> writes fs' = writes fs0 @ map (\<lambda>e. (entry_target proj e, snd e)) (take (Suc n) (e # es))"
      by simp
    then show ?thesis by blast
  next
    case (Some x)
    with st Cons.prems have "r = Some x" "fs' = fs1" by simp_all
    with compile_write_file_fail [of proj e fs0 x fs1] st Some
    have "0 \<le> length (e # es) \<and> (r = None \<longrightarrow> 0 = length (e # es))
        \<and> writes fs' = writes fs0 @ map (\<lambda>e. (entry_target proj e, snd e)) (take 0 (e # es))"
      by simp
    then show ?thesis by blast
  qed
qed

lemma backend_write_file_ok:
  assumes "backend_write_file proj e fs0 = (None, fs')"
  shows "writes fs' = writes fs0 @ [(entry_target proj e, snd e)]"
  using assms
  by (auto simp: backend_write_file_def Let_def and_then_def entry_target_def
      split: prod.splits option.splits dest!: mkdir_recursive_writes writeFile_ok(2))

lemma backend_write_file_fail:
  assumes "backend_write_file proj e fs0 = (Some x, fs')"
  shows "writes fs' = writes fs0"
  using assms
  by (auto simp: backend_write_file_def Let_def and_then_def
      split: prod.splits option.splits dest!: mkdir_recursive_writes writeFile_fail)

lemma backend_write_loop_writes:
  assumes "backend_write_loop proj es fs0 = (r, fs')"
  shows "\<exists>n \<le> length es. (r = None \<longrightarrow> n = length es)
           \<and> writes fs' = writes fs0 @ map (\<lambda>e. (entry_target proj e, snd e)) (take n es)"
  using assms
proof (induction es arbitrary: fs0)
  case Nil
  then show ?case by simp
next
  case (Cons e es)
  obtain r1 fs1 where st: "backend_write_file proj e fs0 = (r1, fs1)"
    by (cases "backend_write_file proj e fs0") auto
  show ?case
  proof (cases r1)
    case None
    with st Cons.prems have "backend_write_loop proj es fs1 = (r, fs')" by simp
    from Cons.IH [OF this] obtain n where n: "n \<le> length es" "r = None \<longrightarrow> n = length es"
      "writes fs' = writes fs1 @ map (\<lambda>e. (entry_target proj e, snd e)) (take n es)"
      by blast
    with backend_write_file_ok [of proj e fs0 fs1] st None
    have "Suc n \<le> length (e # es) \<and> (r = None \<longrightarrow> Suc n = length (e # es))
        \<and> writes fs' = writes fs0 @ map (\<lambda>e. (entry_target proj e, snd e)) (take (Suc n) (e # es))"
      by simp
    then show ?thesis by blast
  next
    case (Some x)
    with st Cons.prems have "r = Some x" "fs' = fs1" by simp_all
    with backend_write_file_fail [of proj e fs0 x fs1] st Some
    have "0 \<le> length (e # es) \<and> (r = None \<longrightarrow> 0 = length (e # es))
        \<and> writes fs' = writes fs0 @ map (\<lambda>e. (entry_target proj e, snd e)) (take 0 (e # es))"
      by simp
    then show ?thesis by blast
  qed
qed

text \<open>What the build loop leaves at a path.\<close>

lemma compile_write_loop_keeps:
  assumes "compile_write_loop proj es fs0 = (None, fs')"
      and "node_at fs0 p = Some n" and "\<forall>e \<in> set es. entry_target proj e \<noteq> p"
  shows "node_at fs' p = Some n"
  using assms
proof (induction es arbitrary: fs0)
  case Nil
  then show ?case by simp
next
  case (Cons e es)
  from Cons.prems(1) obtain fs1 where st: "compile_write_file proj e fs0 = (None, fs1)"
    and rest: "compile_write_loop proj es fs1 = (None, fs')"
    by (auto split: prod.splits option.splits)
  from compile_write_file_ok(3) [OF st Cons.prems(2)] Cons.prems(3)
  have "node_at fs1 p = Some n" by auto
  from Cons.IH [OF rest this] Cons.prems(3) show ?case by simp
qed

lemma compile_write_loop_last:
  assumes "compile_write_loop proj es fs0 = (None, fs')"
      and "filter (\<lambda>e. entry_target proj e = p) es \<noteq> []"
  shows "node_at fs' p = Some (File (snd (last (filter (\<lambda>e. entry_target proj e = p) es))))"
  using assms
proof (induction es arbitrary: fs0)
  case Nil
  then show ?case by simp
next
  case (Cons e es)
  from Cons.prems(1) obtain fs1 where st: "compile_write_file proj e fs0 = (None, fs1)"
    and rest: "compile_write_loop proj es fs1 = (None, fs')"
    by (auto split: prod.splits option.splits)
  show ?case
  proof (cases "filter (\<lambda>e. entry_target proj e = p) es = []")
    case False
    from Cons.IH [OF rest False] False show ?thesis by simp
  next
    case True
    with Cons.prems(2) have tp: "entry_target proj e = p" by (auto split: if_splits)
    from True have no: "\<forall>e \<in> set es. entry_target proj e \<noteq> p"
      by (simp add: filter_empty_conv)
    from compile_write_file_ok(2) [OF st] tp have "node_at fs1 p = Some (File (snd e))" by simp
    from compile_write_loop_keeps [OF rest this no] True tp show ?thesis by simp
  qed
qed

lemma manifest_path_eq: "manifest_path proj = proj @ [''pubspec.yaml'']"
  by (simp add: manifest_path_def path_join_def)

lemma path_join_pubspec: "path_join proj ''pubspec.yaml'' = (manifest_path proj, False)"
  by (simp add: manifest_path_def path_join_def)

lemma target_of_slash_pubspec: "entry_target proj (''/pubspec.yaml'', c) = manifest_path proj"
  by (simp add: entry_target_def manifest_path_def path_join_def strip_leading_slashes_def)

lemma target_of_pubspec: "entry_target proj (''pubspec.yaml'', c) = manifest_path proj"
  by (simp add: entry_target_def manifest_path_def path_join_def strip_leading_slashes_def)

text \<open>The scaffold step.\<close>

lemma write_pubspec_truthy:
  "truthy (map_of files ''/pubspec.yaml'') \<Longrightarrow> write_pubspec proj files fs0 = (None, fs0)"
  by (simp add: write_pubspec_def)

lemma write_pubspec_falsy:
  assumes "\<not> truthy (map_of files ''/pubspec.yaml'')"
      and "write_pubspec proj files fs0 = (None, fs')"
  shows "writes fs' = writes fs0 @ [(manifest_path proj, js_trim PUBSPEC_YAML)]"
    and "node_at fs' (manifest_path proj) = Some (File (js_trim PUBSPEC_YAML))"
  using assms
  by (auto simp: write_pubspec_def path_join_pubspec Let_def and_then_def chmod_def access_def
      split: prod.splits option.splits dest!: resolves_same
      dest: writeFile_ok(2) writeFile_ok(3) [where p = "manifest_path proj"])

text \<open>A file written and then checked: the file is there, or nothing has changed.\<close>

lemma write_checked_effect:
  assumes "and_then (writeFile fp c) (and_then (chmod fp) (access fp)) fs1 = (r, fs')"
  shows "fs' = fs1
     \<or> (writes fs' = writes fs1 @ [(fst fp, c)]
        \<and> (\<forall>p. node_at fs' p = (if p = fst fp then Some (File c) else node_at fs1 p)))"
proof (cases "writeFile fp c fs1")
  case (Pair r1 fs2)
  show ?thesis
  proof (cases r1)
    case None
    with Pair have w: "writeFile fp c fs1 = (None, fs2)" by simp
    from writeFile_then_resolves [OF w] assms w have "fs' = fs2"
      by (simp add: and_then_def chmod_def access_def)
    with writeFile_ok(2,3) [OF w] show ?thesis by simp
  next
    case (Some e)
    with Pair assms writeFile_fail [of fp c fs1 e fs2] show ?thesis
      by (simp add: and_then_def)
  qed
qed

text \<open>The \<^verbatim>\<open>web/index.html\<close> step writes nowhere else.\<close>

lemma write_index_html_effect:
  assumes "write_index_html proj fs0 = (r, fs')"
  shows "(writes fs' = writes fs0
          \<or> writes fs' = writes fs0 @ [(proj @ [''web'', ''index.html''], DEFAULT_INDEX_HTML)])
     \<and> (\<forall>p n. node_at fs0 p = Some n \<longrightarrow> p \<noteq> proj @ [''web'', ''index.html'']
            \<longrightarrow> node_at fs' p = Some n)"
proof -
  let ?ix = "(proj @ [''web'', ''index.html''], False)"
  have pj: "path_join proj ''web'' = (proj @ [''web''], False)"
    "path_join (proj @ [''web'']) ''index.html'' = ?ix"
    by (simp_all add: path_join_def)
  obtain r1 fs1 where m: "mkdir_recursive (proj @ [''web'']) fs0 = (r1, fs1)"
    by (cases "mkdir_recursive (proj @ [''web'']) fs0") auto
  then have m1: "writes fs1 = writes fs0"
    and m2: "\<And>p n. node_at fs0 p = Some n \<Longrightarrow> node_at fs1 p = Some n"
    by (auto dest: mkdir_recursive_writes mkdir_recursive_keeps)
  have "fs' = fs1
     \<or> (writes fs' = writes fs1 @ [(fst ?ix, DEFAULT_INDEX_HTML)]
        \<and> (\<forall>p. node_at fs' p
                 = (if p = fst ?ix then Some (File DEFAULT_INDEX_HTML) else node_at fs1 p)))"
  proof (cases r1)
    case (Some e)
    with m assms show ?thesis
      by (simp add: write_index_html_def Let_def pj and_then_def)
  next
    case None
    obtain r2 fs2 where c: "chmod (proj @ [''web''], False) fs1 = (r2, fs2)"
      by (cases "chmod (proj @ [''web''], False) fs1") auto
    then have c1: "fs2 = fs1" by (auto simp: chmod_def dest: resolves_same)
    obtain r3 fs3 where a: "access ?ix fs1 = (r3, fs3)"
      by (cases "access ?ix fs1") auto
    then have a1: "fs3 = fs1" by (auto simp: access_def dest: resolves_same)
    show ?thesis
    proof (cases "r2 = None \<and> r3 \<noteq> None")
      case True
      with m None c c1 a a1 assms
      have "and_then (writeFile ?ix DEFAULT_INDEX_HTML) (and_then (chmod ?ix) (access ?ix)) fs1
              = (r, fs')"
        by (cases r3) (auto simp: write_index_html_def Let_def pj and_then_def)
      from write_checked_effect [OF this] show ?thesis .
    next
      case False
      with m None c c1 a a1 assms show ?thesis
        by (cases r2; cases r3) (auto simp: write_index_html_def Let_def pj and_then_def)
    qed
  qed
  with m1 m2 show ?thesis by auto
qed

lemma compile_materialize_None:
  assumes "compile_materialize proj files fs0 = (None, fs')"
  obtains fs1 fs2 fs3 where "mkdir_recursive proj fs0 = (None, fs1)"
    and "compile_write_loop proj files fs1 = (None, fs2)"
    and "write_pubspec proj files fs2 = (None, fs3)"
    and "write_index_html proj fs3 = (None, fs')"
  using assms
  by (auto simp: compile_materialize_def and_then_def chmod_def
      split: prod.splits option.splits dest!: resolves_same)

lemma index_is_not_manifest: "proj @ [''web'', ''index.html''] \<noteq> manifest_path proj"
  by (simp add: manifest_path_eq)

lemma filter_target_writes:
  "filter (\<lambda>w. fst w = q) (map (\<lambda>e. (entry_target proj e, snd e)) es)
     = map (\<lambda>e. (q, snd e)) (filter (\<lambda>e. entry_target proj e = q) es)"
  by (induction es) auto

lemma materialize_manifest:
  assumes "compile_materialize proj files fs0 = (None, fs')"
  shows "manifest_writes proj fs0 fs'
           = map (\<lambda>e. (manifest_path proj, snd e)) (manifest_entries proj files)
             @ (if truthy (map_of files ''/pubspec.yaml'') then []
                else [(manifest_path proj, js_trim PUBSPEC_YAML)])"
    and "node_at fs' (manifest_path proj)
           = Some (File (if truthy (map_of files ''/pubspec.yaml'')
                         then snd (last (manifest_entries proj files))
                         else js_trim PUBSPEC_YAML))"
proof -
  let ?mp = "manifest_path proj"
  let ?ix = "proj @ [''web'', ''index.html'']"
  let ?P = "if truthy (map_of files ''/pubspec.yaml'') then []
            else [(?mp, js_trim PUBSPEC_YAML)]"
  from assms obtain fs1 fs2 fs3 where m: "mkdir_recursive proj fs0 = (None, fs1)"
    and l: "compile_write_loop proj files fs1 = (None, fs2)"
    and p: "write_pubspec proj files fs2 = (None, fs3)"
    and i: "write_index_html proj fs3 = (None, fs')"
    by (rule compile_materialize_None)
  from m have w1: "writes fs1 = writes fs0"
    by (rule mkdir_recursive_writes)
  from compile_write_loop_writes [OF l]
  have w2: "writes fs2 = writes fs1 @ map (\<lambda>e. (entry_target proj e, snd e)) files"
    by auto
  have w3: "writes fs3 = writes fs2 @ ?P"
    using p write_pubspec_truthy [of files proj fs2] write_pubspec_falsy(1) [of files proj fs2 fs3]
    by (cases "truthy (map_of files ''/pubspec.yaml'')") simp_all
  from write_index_html_effect [OF i]
  have w4: "writes fs' = writes fs3 \<or> writes fs' = writes fs3 @ [(?ix, DEFAULT_INDEX_HTML)]"
    and k4: "\<And>n. node_at fs3 ?mp = Some n \<Longrightarrow> node_at fs' ?mp = Some n"
    using index_is_not_manifest [of proj] by auto
  from w1 w2 w3 w4 index_is_not_manifest [of proj]
  show "manifest_writes proj fs0 fs'
           = map (\<lambda>e. (?mp, snd e)) (manifest_entries proj files) @ ?P"
    by (auto simp: manifest_writes_def writes_since_def manifest_entries_def filter_target_writes)
  show "node_at fs' ?mp
           = Some (File (if truthy (map_of files ''/pubspec.yaml'')
                         then snd (last (manifest_entries proj files))
                         else js_trim PUBSPEC_YAML))"
  proof (cases "truthy (map_of files ''/pubspec.yaml'')")
    case True
    then obtain c where "map_of files ''/pubspec.yaml'' = Some c"
      by (auto simp: truthy_def split: option.splits)
    then have "(''/pubspec.yaml'', c) \<in> set files" by (rule map_of_SomeD)
    then have "(''/pubspec.yaml'', c) \<in> set (manifest_entries proj files)"
      by (simp add: manifest_entries_def target_of_slash_pubspec)
    then have ne: "filter (\<lambda>e. entry_target proj e = ?mp) files \<noteq> []"
      by (auto simp: manifest_entries_def filter_empty_conv)
    from compile_write_loop_last [OF l ne] p True write_pubspec_truthy [of files proj fs2]
    have "node_at fs3 ?mp = Some (File (snd (last (manifest_entries proj files))))"
      by (simp add: manifest_entries_def)
    from k4 [OF this] True show ?thesis by simp
  next
    case False
    from k4 [OF write_pubspec_falsy(2) [OF False p]] False show ?thesis by simp
  qed
qed

lemma compile_post_started:
  assumes "compile_post projectName files projectId s = (None, s')"
  shows "\<not> invalid_project projectName files"
    and "compile_materialize (project_dir s projectId) (entries files) (fs s) = (None, fs s')"
    and "builds s' = builds s @ [(projectId, [])]"
  using assms
  by (auto simp: compile_post_def on_fs_def split: if_splits prod.splits option.splits)

lemmas compile_eval = compile_post_def example_server_eq path_defs fs_defs server_defs
  compile_materialize_def compile_write_file_def verify_file_def write_pubspec_def
  write_index_html_def Let_def


lemma scaffold_not_empty: "js_trim PUBSPEC_YAML \<noteq> []"
  by (simp add: js_trim_def PUBSPEC_YAML_def js_space_def)

subsection \<open>The manifest of a build\<close>

text \<open>
  Claim C4, as the code has it. When \<^verbatim>\<open>/compile\<close> has materialised the workspace and
  starts the build, the writes it made to \<^verbatim>\<open>pubspec.yaml\<close> are the entries of the file
  map whose key resolves to that path, in order, followed by the default scaffold exactly
  when the file map has no non-empty content under the key \<^verbatim>\<open>/pubspec.yaml\<close>. So with
  such content the manifest holds the content of the last entry that resolves to it (the
  caller's own when \<^verbatim>\<open>/pubspec.yaml\<close> is the only such key), and without it the manifest
  holds the scaffold.
\<close>

theorem manifest_after_materialization:
  assumes "compile_post projectName files projectId s = (None, s')"
  shows "manifest_writes (project_dir s projectId) (fs s) (fs s')
           = map (\<lambda>e. (manifest_path (project_dir s projectId), snd e))
                 (manifest_entries (project_dir s projectId) (entries files))
             @ (if truthy (map_of (entries files) ''/pubspec.yaml'') then []
                else [(manifest_path (project_dir s projectId), js_trim PUBSPEC_YAML)])
     \<and> node_at (fs s') (manifest_path (project_dir s projectId))
           = Some (File (if truthy (map_of (entries files) ''/pubspec.yaml'')
                         then snd (last (manifest_entries (project_dir s projectId) (entries files)))
                         else js_trim PUBSPEC_YAML))
     \<and> (truthy (map_of (entries files) ''/pubspec.yaml'')
          \<and> manifest_entries (project_dir s projectId) (entries files) = [(''/pubspec.yaml'', c)]
        \<longrightarrow> manifest_writes (project_dir s projectId) (fs s) (fs s')
              = [(manifest_path (project_dir s projectId), c)]
            \<and> node_at (fs s') (manifest_path (project_dir s projectId)) = Some (File c))"
  using materialize_manifest [OF compile_post_started(2) [OF assms]] by simp

theorem manifest_after_materialization_witness:
  "compile_post (Some ''demo'')
      (Files [(''/pubspec.yaml'', ''name: app''), (''/lib/main.dart'', ''void main'')]) ''b1''
      example_server
     = (None, snd (compile_post (Some ''demo'')
         (Files [(''/pubspec.yaml'', ''name: app''), (''/lib/main.dart'', ''void main'')]) ''b1''
         example_server))
   \<and> truthy (map_of (entries
         (Files [(''/pubspec.yaml'', ''name: app''), (''/lib/main.dart'', ''void main'')]))
         ''/pubspec.yaml'')
   \<and> manifest_entries [''srv'', ''temp'', ''b1''] (entries
         (Files [(''/pubspec.yaml'', ''name: app''), (''/lib/main.dart'', ''void main'')]))
       = [(''/pubspec.yaml'', ''name: app'')]
   \<and> manifest_writes [''srv'', ''temp'', ''b1''] (fs example_server)
        (fs (snd (compile_post (Some ''demo'')
         (Files [(''/pubspec.yaml'', ''name: app''), (''/lib/main.dart'', ''void main'')]) ''b1''
         example_server)))
       = [([''srv'', ''temp'', ''b1'', ''pubspec.yaml''], ''name: app'')]
   \<and> node_at (fs (snd (compile_post (Some ''demo'')
         (Files [(''/pubspec.yaml'', ''name: app''), (''/lib/main.dart'', ''void main'')]) ''b1''
         example_server))) [''srv'', ''temp'', ''b1'', ''pubspec.yaml'']
       = Some (File ''name: app'')"
proof -
  let ?r = "compile_post (Some ''demo'')
      (Files [(''/pubspec.yaml'', ''name: app''), (''/lib/main.dart'', ''void main'')]) ''b1''
      example_server"
  have "fst ?r = None" by (simp add: compile_eval)
  then have h: "?r = (None, snd ?r)" by (simp add: prod_eq_iff)
  have pd: "project_dir example_server ''b1'' = [''srv'', ''temp'', ''b1'']"
    by (simp add: example_server_eq project_dir_def TEMP_DIR_def path_join_def)
  show ?thesis
    using h manifest_after_materialization [OF h, of "''name: app''"]
    by (simp add: pd entries_def manifest_entries_def manifest_path_eq entry_target_def
        path_join_def strip_leading_slashes_def truthy_def)
qed

text \<open>
  A file map whose \<^verbatim>\<open>/pubspec.yaml\<close> is the empty string: the key is there, and the
  scaffold is written over the caller's manifest.
\<close>

theorem empty_manifest_is_replaced:
  "map_of [(''/pubspec.yaml'', [])] ''/pubspec.yaml'' = Some []
   \<and> fst (compile_post (Some ''demo'') (Files [(''/pubspec.yaml'', [])]) ''b1'' example_server) = None
   \<and> writes (fs (snd (compile_post (Some ''demo'') (Files [(''/pubspec.yaml'', [])]) ''b1''
                         example_server)))
       = [([''srv'', ''temp'', ''b1'', ''pubspec.yaml''], []),
          ([''srv'', ''temp'', ''b1'', ''pubspec.yaml''], js_trim PUBSPEC_YAML),
          ([''srv'', ''temp'', ''b1'', ''web'', ''index.html''], DEFAULT_INDEX_HTML)]
   \<and> node_at (fs (snd (compile_post (Some ''demo'') (Files [(''/pubspec.yaml'', [])]) ''b1''
                          example_server)))
         [''srv'', ''temp'', ''b1'', ''pubspec.yaml''] = Some (File (js_trim PUBSPEC_YAML))
   \<and> js_trim PUBSPEC_YAML \<noteq> []"
  by (simp add: compile_eval scaffold_not_empty)

text \<open>
  Claim C10. When the file map has the manifest under the key \<^verbatim>\<open>pubspec.yaml\<close> and has
  no key \<^verbatim>\<open>/pubspec.yaml\<close>, and \<^verbatim>\<open>/compile\<close> starts the build: the two keys resolve to
  the same path, the caller's manifest is written there by the loop, the scaffold is
  written there after it as the last write to that path, and the manifest holds the
  scaffold.
\<close>

theorem unslashed_manifest_overwritten:
  assumes "compile_post projectName files projectId s = (None, s')"
      and "(''pubspec.yaml'', c) \<in> set (entries files)"
      and "map_of (entries files) ''/pubspec.yaml'' = None"
  shows "entry_target (project_dir s projectId) (''pubspec.yaml'', c)
           = entry_target (project_dir s projectId) (''/pubspec.yaml'', c)
     \<and> (\<exists>before after.
           manifest_writes (project_dir s projectId) (fs s) (fs s')
             = before @ (manifest_path (project_dir s projectId), c) # after
               @ [(manifest_path (project_dir s projectId), js_trim PUBSPEC_YAML)])
     \<and> node_at (fs s') (manifest_path (project_dir s projectId))
           = Some (File (js_trim PUBSPEC_YAML))"
proof -
  let ?proj = "project_dir s projectId"
  let ?mp = "manifest_path ?proj"
  have nt: "\<not> truthy (map_of (entries files) ''/pubspec.yaml'')"
    using assms(3) by (simp add: truthy_def)
  from assms(2) have "(''pubspec.yaml'', c) \<in> set (manifest_entries ?proj (entries files))"
    by (simp add: manifest_entries_def target_of_pubspec)
  then have "(?mp, c) \<in> set (map (\<lambda>e. (?mp, snd e)) (manifest_entries ?proj (entries files)))"
    by force
  then obtain before after where
    "map (\<lambda>e. (?mp, snd e)) (manifest_entries ?proj (entries files)) = before @ (?mp, c) # after"
    by (auto dest: split_list)
  with materialize_manifest [OF compile_post_started(2) [OF assms(1)]] nt
  show ?thesis by (simp add: target_of_pubspec target_of_slash_pubspec) blast
qed

theorem unslashed_manifest_overwritten_witness:
  "compile_post (Some ''demo'') (Files [(''pubspec.yaml'', ''name: app'')]) ''b1'' example_server
     = (None, snd (compile_post (Some ''demo'') (Files [(''pubspec.yaml'', ''name: app'')]) ''b1''
                     example_server))
   \<and> (''pubspec.yaml'', ''name: app'') \<in> set (entries (Files [(''pubspec.yaml'', ''name: app'')]))
   \<and> map_of (entries (Files [(''pubspec.yaml'', ''name: app'')])) ''/pubspec.yaml'' = None
   \<and> manifest_writes [''srv'', ''temp'', ''b1''] (fs example_server)
        (fs (snd (compile_post (Some ''demo'') (Files [(''pubspec.yaml'', ''name: app'')])
                         ''b1'' example_server)))
       = [([''srv'', ''temp'', ''b1'', ''pubspec.yaml''], ''name: app''),
          ([''srv'', ''temp'', ''b1'', ''pubspec.yaml''], js_trim PUBSPEC_YAML)]
   \<and> node_at (fs (snd (compile_post (Some ''demo'') (Files [(''pubspec.yaml'', ''name: app'')])
                          ''b1'' example_server)))
         [''srv'', ''temp'', ''b1'', ''pubspec.yaml''] = Some (File (js_trim PUBSPEC_YAML))"
proof -
  let ?r = "compile_post (Some ''demo'') (Files [(''pubspec.yaml'', ''name: app'')]) ''b1''
              example_server"
  have "fst ?r = None" by (simp add: compile_eval)
  then have h: "?r = (None, snd ?r)" by (simp add: prod_eq_iff)
  have e: "(''pubspec.yaml'', ''name: app'') \<in> set (entries (Files [(''pubspec.yaml'', ''name: app'')]))"
    "map_of (entries (Files [(''pubspec.yaml'', ''name: app'')])) ''/pubspec.yaml'' = None"
    by (simp_all add: entries_def)
  have pd: "project_dir example_server ''b1'' = [''srv'', ''temp'', ''b1'']"
    by (simp add: example_server_eq project_dir_def TEMP_DIR_def path_join_def)
  have w: "manifest_writes [''srv'', ''temp'', ''b1''] (fs example_server) (fs (snd ?r))
       = [([''srv'', ''temp'', ''b1'', ''pubspec.yaml''], ''name: app''),
          ([''srv'', ''temp'', ''b1'', ''pubspec.yaml''], js_trim PUBSPEC_YAML)]"
    by (simp add: compile_eval manifest_writes_def writes_since_def manifest_path_eq)
  show ?thesis
    using h e w unslashed_manifest_overwritten [OF h e]
    by (simp add: pd manifest_path_eq)
qed



subsection \<open>When an entry is written\<close>




















subsection \<open>Paths with traversal segments\<close>




text \<open>
  The key \<^verbatim>\<open>/\<close> names the workspace root itself: the request is valid, the file system
  refuses the write, and the answer is 500 with nothing written.
\<close>

lemma root_key_is_refused:
  "fst (compile_post (Some ''demo'') (Files [(''/'', ''y'')]) ''b1'' example_server)
     = Some (Response 500 (ErrorDetails ''Failed to compile Flutter code''
              (ErrorMessage (FsError EISDIR [''srv'', ''temp'', ''b1'']))))
   \<and> writes (fs (snd (compile_post (Some ''demo'') (Files [(''/'', ''y'')]) ''b1''
                        example_server))) = []
   \<and> \<not> invalid_project (Some ''demo'') (Files [(''/'', ''y'')])"
  by (simp add: compile_eval cleanup_def)

end
